theory Spec2Isabelle
  imports Complex_Main "HOL-Library.AList" "HOL-Library.Monad_Syntax"
begin

section \<open>CalorieFlow: the domain model and its derived metrics\<close>

text \<open>
  The application keeps one user profile and a mapping from calendar dates to daily food
  logs (\<^verbatim>\<open>App.tsx\<close>, \<^verbatim>\<open>types/types.ts\<close>). This theory embeds the
  functions that carry its business rules: \<^verbatim>\<open>calculateTDEE\<close>,
  \<^verbatim>\<open>handleAddFood\<close>, \<^verbatim>\<open>handleDeleteFood\<close>,
  \<^verbatim>\<open>handleExportData\<close> and \<^verbatim>\<open>handleFileChange\<close>.
\<close>

subsection \<open>JavaScript numbers\<close>

text \<open>
  A JavaScript \<^verbatim>\<open>number\<close> is \<^verbatim>\<open>NaN\<close>, one of the two infinities, or a
  finite value. Finite values are kept as exact rationals: the rounding and the range of
  IEEE doubles are not modelled, and \<^verbatim>\<open>-0\<close> is the same value as \<^verbatim>\<open>0\<close>
  (as it is for \<^verbatim>\<open>===\<close>). The special values follow IEEE 754.
\<close>

datatype jsnum = NaN | PosInf | NegInf | Fin rat

instantiation jsnum :: "{plus, minus, times, uminus}"
begin

fun uminus_jsnum :: "jsnum \<Rightarrow> jsnum" where
  "uminus_jsnum NaN = NaN"
| "uminus_jsnum PosInf = NegInf"
| "uminus_jsnum NegInf = PosInf"
| "uminus_jsnum (Fin a) = Fin (- a)"

fun plus_jsnum :: "jsnum \<Rightarrow> jsnum \<Rightarrow> jsnum" where
  "plus_jsnum NaN y = NaN"
| "plus_jsnum x NaN = NaN"
| "plus_jsnum PosInf NegInf = NaN"
| "plus_jsnum NegInf PosInf = NaN"
| "plus_jsnum PosInf y = PosInf"
| "plus_jsnum x PosInf = PosInf"
| "plus_jsnum NegInf y = NegInf"
| "plus_jsnum x NegInf = NegInf"
| "plus_jsnum (Fin a) (Fin b) = Fin (a + b)"

definition minus_jsnum :: "jsnum \<Rightarrow> jsnum \<Rightarrow> jsnum" where
  "minus_jsnum x y = x + (- y)"

text \<open>The sign of a product with an infinity; \<^verbatim>\<open>Infinity * 0\<close> is \<^verbatim>\<open>NaN\<close>.\<close>

definition signed_inf :: "rat \<Rightarrow> jsnum" where
  "signed_inf s = (if s = 0 then NaN else if 0 < s then PosInf else NegInf)"

fun times_jsnum :: "jsnum \<Rightarrow> jsnum \<Rightarrow> jsnum" where
  "times_jsnum NaN y = NaN"
| "times_jsnum x NaN = NaN"
| "times_jsnum PosInf PosInf = PosInf"
| "times_jsnum PosInf NegInf = NegInf"
| "times_jsnum NegInf PosInf = NegInf"
| "times_jsnum NegInf NegInf = PosInf"
| "times_jsnum PosInf (Fin b) = signed_inf b"
| "times_jsnum NegInf (Fin b) = signed_inf (- b)"
| "times_jsnum (Fin a) PosInf = signed_inf a"
| "times_jsnum (Fin a) NegInf = signed_inf (- a)"
| "times_jsnum (Fin a) (Fin b) = Fin (a * b)"

instance ..

end

text \<open>\<^verbatim>\<open>x > y\<close>: false as soon as one side is \<^verbatim>\<open>NaN\<close>.\<close>

fun js_gt :: "jsnum \<Rightarrow> jsnum \<Rightarrow> bool" where
  "js_gt NaN y = False"
| "js_gt x NaN = False"
| "js_gt x PosInf = False"
| "js_gt NegInf y = False"
| "js_gt PosInf y = True"
| "js_gt x NegInf = True"
| "js_gt (Fin a) (Fin b) = (b < a)"

fun isNaN :: "jsnum \<Rightarrow> bool" where
  "isNaN NaN = True"
| "isNaN x = False"

text \<open>The truth value of a number in a condition: \<^verbatim>\<open>0\<close> and \<^verbatim>\<open>NaN\<close> are falsy.\<close>

fun truthy_num :: "jsnum \<Rightarrow> bool" where
  "truthy_num NaN = False"
| "truthy_num (Fin a) = (a \<noteq> 0)"
| "truthy_num x = True"

text \<open>
  \<^verbatim>\<open>Math.round\<close>: the nearest integer, a tie going towards \<^verbatim>\<open>+Infinity\<close>;
  \<^verbatim>\<open>NaN\<close> and the infinities are returned as they are.
\<close>

fun Math_round :: "jsnum \<Rightarrow> jsnum" where
  "Math_round (Fin a) = Fin (of_int \<lfloor>a + 1 / 2\<rfloor>)"
| "Math_round x = x"

text \<open>\<^verbatim>\<open>Number.isInteger\<close>: a finite value without a fractional part.\<close>

fun isInteger :: "jsnum \<Rightarrow> bool" where
  "isInteger (Fin a) = (of_int \<lfloor>a\<rfloor> = a)"
| "isInteger x = False"

subsection \<open>Strings and the numeric literals in them\<close>

text \<open>
  A \<^typ>\<open>string\<close> stands for a JavaScript string whose code units are all below 256,
  a \<^typ>\<open>char\<close> being the code unit of the same number.
\<close>

definition code_unit :: "char \<Rightarrow> nat" where
  "code_unit c = of_char c"

text \<open>
  \<^verbatim>\<open>StrWhiteSpaceChar\<close> of ECMA-262, as far as it lies below 256: TAB, LF, VT, FF,
  CR, space and the no-break space.
\<close>

definition StrWhiteSpaceChar :: "char \<Rightarrow> bool" where
  "StrWhiteSpaceChar c = (code_unit c \<in> {9, 10, 11, 12, 13, 32, 160})"

definition trimStart :: "string \<Rightarrow> string" where
  "trimStart s = dropWhile StrWhiteSpaceChar s"

definition trim :: "string \<Rightarrow> string" where
  "trim s = rev (trimStart (rev (trimStart s)))"

text \<open>The value of a digit in a radix up to 16, \<open>None\<close> for any other character.\<close>

definition digit_value :: "nat \<Rightarrow> char \<Rightarrow> nat option" where
  "digit_value radix c =
     (let n = code_unit c;
          v = (if 48 \<le> n \<and> n \<le> 57 then Some (n - 48)
               else if 97 \<le> n \<and> n \<le> 102 then Some (n - 87)
               else if 65 \<le> n \<and> n \<le> 70 then Some (n - 55)
               else None)
      in case v of None \<Rightarrow> None | Some d \<Rightarrow> if d < radix then Some d else None)"

definition is_digit :: "nat \<Rightarrow> char \<Rightarrow> bool" where
  "is_digit radix c = (digit_value radix c \<noteq> None)"

definition digits_value :: "nat \<Rightarrow> string \<Rightarrow> nat" where
  "digits_value radix ds = foldl (\<lambda>a c. radix * a + (case digit_value radix c of Some d \<Rightarrow> d | None \<Rightarrow> 0)) 0 ds"

text \<open>A non-empty run of digits that is the whole string.\<close>

definition all_digits :: "nat \<Rightarrow> string \<Rightarrow> bool" where
  "all_digits radix ds = (ds \<noteq> [] \<and> list_all (is_digit radix) ds)"

text \<open>\<^verbatim>\<open>SignedInteger\<close>: decimal digits behind an optional sign.\<close>

definition SignedInteger :: "string \<Rightarrow> int option" where
  "SignedInteger s =
     (case s of
        [] \<Rightarrow> None
      | c # ds \<Rightarrow>
          if c = CHR ''+'' then (if all_digits 10 ds then Some (int (digits_value 10 ds)) else None)
          else if c = CHR ''-'' then (if all_digits 10 ds then Some (- int (digits_value 10 ds)) else None)
          else if all_digits 10 s then Some (int (digits_value 10 s)) else None)"

text \<open>An optional \<^verbatim>\<open>ExponentPart\<close> that ends the literal: the exponent, 0 when absent.\<close>

definition ExponentPart :: "string \<Rightarrow> int option" where
  "ExponentPart s =
     (case s of
        [] \<Rightarrow> Some 0
      | c # r \<Rightarrow> if c = CHR ''e'' \<or> c = CHR ''E'' then SignedInteger r else None)"

definition pow10 :: "int \<Rightarrow> rat" where
  "pow10 e = (if 0 \<le> e then 10 ^ nat e else 1 / 10 ^ nat (- e))"

text \<open>
  \<^verbatim>\<open>StrUnsignedDecimalLiteral\<close>: \<^verbatim>\<open>Infinity\<close>, or digits with an optional
  fraction and exponent, at least one digit standing before the exponent.
\<close>

definition StrUnsignedDecimalLiteral :: "string \<Rightarrow> jsnum option" where
  "StrUnsignedDecimalLiteral s =
     (if s = ''Infinity'' then Some PosInf
      else
        let ip = takeWhile (is_digit 10) s; r1 = dropWhile (is_digit 10) s in
        case r1 of
          [] \<Rightarrow> if ip = [] then None else Some (Fin (of_nat (digits_value 10 ip)))
        | c # r2 \<Rightarrow>
            if c = CHR ''.'' then
              (let fp = takeWhile (is_digit 10) r2; r3 = dropWhile (is_digit 10) r2 in
               if ip = [] \<and> fp = [] then None
               else map_option
                 (\<lambda>e. Fin ((of_nat (digits_value 10 ip)
                              + of_nat (digits_value 10 fp) / 10 ^ length fp) * pow10 e))
                 (ExponentPart r3))
            else if ip = [] then None
            else map_option (\<lambda>e. Fin (of_nat (digits_value 10 ip) * pow10 e)) (ExponentPart r1))"

definition StrDecimalLiteral :: "string \<Rightarrow> jsnum option" where
  "StrDecimalLiteral s =
     (case s of
        [] \<Rightarrow> None
      | c # r \<Rightarrow>
          if c = CHR ''+'' then StrUnsignedDecimalLiteral r
          else if c = CHR ''-'' then map_option uminus (StrUnsignedDecimalLiteral r)
          else StrUnsignedDecimalLiteral s)"

text \<open>\<^verbatim>\<open>NonDecimalIntegerLiteral\<close>: \<^verbatim>\<open>0x\<close>, \<^verbatim>\<open>0o\<close> or \<^verbatim>\<open>0b\<close> and digits, unsigned.\<close>

definition NonDecimalIntegerLiteral :: "string \<Rightarrow> jsnum option" where
  "NonDecimalIntegerLiteral s =
     (case s of
        z # x # ds \<Rightarrow>
          if z \<noteq> CHR ''0'' then None
          else
            (let radix = (if x = CHR ''x'' \<or> x = CHR ''X'' then 16
                          else if x = CHR ''o'' \<or> x = CHR ''O'' then 8
                          else if x = CHR ''b'' \<or> x = CHR ''B'' then 2 else 0)
             in if radix \<noteq> 0 \<and> all_digits radix ds then Some (Fin (of_nat (digits_value radix ds)))
                else None)
      | _ \<Rightarrow> None)"

text \<open>
  \<^verbatim>\<open>StringToNumber\<close>: white space around the literal is dropped, the empty string is
  \<^verbatim>\<open>0\<close>, and a string that is no numeric literal is \<^verbatim>\<open>NaN\<close>.
\<close>

definition StringToNumber :: "string \<Rightarrow> jsnum" where
  "StringToNumber s =
     (let t = trim s in
      if t = [] then Fin 0
      else case NonDecimalIntegerLiteral t of
             Some n \<Rightarrow> n
           | None \<Rightarrow> (case StrDecimalLiteral t of Some n \<Rightarrow> n | None \<Rightarrow> NaN))"

text \<open>
  \<^verbatim>\<open>parseInt(s)\<close> without a radix: leading white space and a sign are dropped, a
  prefix \<^verbatim>\<open>0x\<close> selects radix 16, and the longest run of digits is read; with no
  digit the result is \<^verbatim>\<open>NaN\<close>.
\<close>

definition parseInt :: "string \<Rightarrow> jsnum" where
  "parseInt s =
     (let S0 = trimStart s;
          neg = (S0 \<noteq> [] \<and> hd S0 = CHR ''-'');
          S1 = (if S0 \<noteq> [] \<and> (hd S0 = CHR ''+'' \<or> hd S0 = CHR ''-'') then tl S0 else S0);
          hex = (2 \<le> length S1 \<and> (take 2 S1 = ''0x'' \<or> take 2 S1 = ''0X''));
          R = (if hex then 16 else 10);
          S2 = (if hex then drop 2 S1 else S1);
          Z = takeWhile (is_digit R) S2
      in if Z = [] then NaN
         else if neg then Fin (- of_nat (digits_value R Z)) else Fin (of_nat (digits_value R Z)))"

text \<open>\<^verbatim>\<open>toLowerCase\<close> on code units below 256: A to Z, and the Latin-1 capitals.\<close>

definition toLowerCase :: "string \<Rightarrow> string" where
  "toLowerCase s =
     map (\<lambda>c. let n = code_unit c in
               if (65 \<le> n \<and> n \<le> 90) \<or> (192 \<le> n \<and> n \<le> 222 \<and> n \<noteq> 215)
               then char_of (n + 32) else c) s"

subsection \<open>JavaScript values as they come out of \<^verbatim>\<open>JSON.parse\<close>\<close>

text \<open>
  An object is the list of its own properties, the first entry of a key being the
  property. \<open>JUndefined\<close> is what reading a missing property gives.
\<close>

datatype jsval =
    JUndefined
  | JNull
  | JBool bool
  | JNum jsnum
  | JStr string
  | JArr "jsval list"
  | JObj "(string \<times> jsval) list"

text \<open>The truth value of \<^verbatim>\<open>v\<close> in \<^verbatim>\<open>v && ...\<close>, \<^verbatim>\<open>v || ...\<close> and \<^verbatim>\<open>!v\<close>.\<close>

fun truthy :: "jsval \<Rightarrow> bool" where
  "truthy JUndefined = False"
| "truthy JNull = False"
| "truthy (JBool b) = b"
| "truthy (JNum n) = truthy_num n"
| "truthy (JStr s) = (s \<noteq> [])"
| "truthy (JArr xs) = True"
| "truthy (JObj kvs) = True"

text \<open>
  \<^verbatim>\<open>v.k\<close> for a value \<^verbatim>\<open>v\<close> other than \<^verbatim>\<open>null\<close> and \<^verbatim>\<open>undefined\<close>, and a
  key \<^verbatim>\<open>k\<close> that is neither an index nor a name that \<^verbatim>\<open>Object.prototype\<close>,
  strings or arrays define (the handlers read the document's \<^verbatim>\<open>user\<close>,
  \<^verbatim>\<open>logs\<close> and the profile's field names only).
\<close>

fun js_get :: "jsval \<Rightarrow> string \<Rightarrow> jsval" where
  "js_get (JObj kvs) k = (case map_of kvs k of Some v \<Rightarrow> v | None \<Rightarrow> JUndefined)"
| "js_get v k = JUndefined"

text \<open>
  Converting an object to a primitive calls its \<^verbatim>\<open>toString\<close>. An object out of
  \<^verbatim>\<open>JSON.parse\<close> that has a property \<^verbatim>\<open>toString\<close> of its own hides the inherited
  method behind a value that cannot be called, and the conversion throws a
  \<^verbatim>\<open>TypeError\<close>; an array converts its elements in turn.
\<close>

fun cannot_convert :: "jsval \<Rightarrow> bool" where
  "cannot_convert (JObj kvs) = (map_of kvs ''toString'' \<noteq> None)"
| "cannot_convert (JArr xs) = list_ex cannot_convert xs"
| "cannot_convert v = False"

text \<open>
  \<^verbatim>\<open>ToNumber\<close> of a value that converts. An array goes through its text, the
  elements joined by commas: the empty array gives the empty string, a single element
  gives its own text (empty for \<^verbatim>\<open>null\<close> and \<^verbatim>\<open>undefined\<close>; a number reads
  back from its text as itself), and two or more elements give a text with a comma in
  it, which is no numeric literal. A plain object gives \<^verbatim>\<open>[object Object]\<close>.
\<close>

fun ToNumber :: "jsval \<Rightarrow> jsnum" where
  "ToNumber JUndefined = NaN"
| "ToNumber JNull = Fin 0"
| "ToNumber (JBool b) = (if b then Fin 1 else Fin 0)"
| "ToNumber (JNum n) = n"
| "ToNumber (JStr s) = StringToNumber s"
| "ToNumber (JObj kvs) = NaN"
| "ToNumber (JArr []) = Fin 0"
| "ToNumber (JArr [JUndefined]) = Fin 0"
| "ToNumber (JArr [JNull]) = Fin 0"
| "ToNumber (JArr [JNum n]) = n"
| "ToNumber (JArr [JStr s]) = StringToNumber s"
| "ToNumber (JArr [JArr ys]) = ToNumber (JArr ys)"
| "ToNumber (JArr xs) = NaN"

text \<open>\<^verbatim>\<open>Number(v)\<close>; \<open>None\<close> when the conversion throws.\<close>

definition Number :: "jsval \<Rightarrow> jsnum option" where
  "Number v = (if cannot_convert v then None else Some (ToNumber v))"

text \<open>
  The text of a value. The decimal digits that a finite number is written with are not
  modelled: \<open>Digits\<close> stands for any text that has the digits of such a number in it.
\<close>

datatype jstext = Text string | Digits

fun join :: "jstext list \<Rightarrow> jstext" where
  "join [] = Text []"
| "join [t] = t"
| "join (t # ts) =
     (case (t, join ts) of
        (Text a, Text b) \<Rightarrow> Text (a @ '','' @ b)
      | _ \<Rightarrow> Digits)"

fun ToString :: "jsval \<Rightarrow> jstext" where
  "ToString JUndefined = Text ''undefined''"
| "ToString JNull = Text ''null''"
| "ToString (JBool b) = Text (if b then ''true'' else ''false'')"
| "ToString (JNum NaN) = Text ''NaN''"
| "ToString (JNum PosInf) = Text ''Infinity''"
| "ToString (JNum NegInf) = Text ''-Infinity''"
| "ToString (JNum (Fin a)) = Digits"
| "ToString (JStr s) = Text s"
| "ToString (JObj kvs) = Text ''[object Object]''"
| "ToString (JArr xs) =
     join (map (\<lambda>x. if x = JUndefined \<or> x = JNull then Text [] else ToString x) xs)"

text \<open>\<^verbatim>\<open>String(v)\<close> and a template literal's \<^verbatim>\<open>${v}\<close>; \<open>None\<close> when the conversion throws.\<close>

definition String_of :: "jsval \<Rightarrow> jstext option" where
  "String_of v = (if cannot_convert v then None else Some (ToString v))"

subsection \<open>The profile (\<^verbatim>\<open>types/types.ts\<close>)\<close>

datatype Gender = MALE | FEMALE

datatype GoalType = LOSE_WEIGHT | MAINTAIN | GAIN_WEIGHT

text \<open>
  The enum \<^verbatim>\<open>ActivityLevel\<close> is numeric; at run time \<^verbatim>\<open>activityLevel\<close> holds
  whatever number was stored (the settings form writes \<^verbatim>\<open>parseFloat\<close> of the
  selected option, the import writes \<^verbatim>\<open>safeNum\<close> of the document's value).
\<close>

definition SEDENTARY :: jsnum where "SEDENTARY = Fin (12 / 10)"
definition LIGHTLY_ACTIVE :: jsnum where "LIGHTLY_ACTIVE = Fin (1375 / 1000)"
definition MODERATELY_ACTIVE :: jsnum where "MODERATELY_ACTIVE = Fin (155 / 100)"
definition VERY_ACTIVE :: jsnum where "VERY_ACTIVE = Fin (1725 / 1000)"
definition EXTRA_ACTIVE :: jsnum where "EXTRA_ACTIVE = Fin (19 / 10)"

text \<open>
  \<^verbatim>\<open>interface UserProfile\<close>. The fields that \<^verbatim>\<open>calculateTDEE\<close> reads have the
  types that every writer of the profile gives them (the settings form, the weight form
  and the import all store numbers and enum members there); \<open>manualTDEE = None\<close> is the
  missing or \<^verbatim>\<open>undefined\<close> property. The import copies \<^verbatim>\<open>name\<close>,
  \<^verbatim>\<open>streak\<close>, \<^verbatim>\<open>lastLogTimestamp\<close> and \<^verbatim>\<open>waterGoal\<close> from the document as
  they are, so these hold any value. Properties outside the interface that an imported
  object may carry along are not modelled.
\<close>

record UserProfile =
  name :: jsval
  gender :: Gender
  age :: jsnum
  height :: jsnum
  currentWeight :: jsnum
  targetWeight :: jsnum
  activityLevel :: jsnum
  goalType :: GoalType
  manualTDEE :: "jsnum option"
  updatedAt :: string
  streak :: jsval
  lastLogTimestamp :: jsval
  waterGoal :: jsval

text \<open>
  \<^verbatim>\<open>INITIAL_USER\<close>; its \<^verbatim>\<open>updatedAt\<close> is the time the module was loaded. The
  object literal has no \<^verbatim>\<open>streak\<close>, \<^verbatim>\<open>lastLogTimestamp\<close> or \<^verbatim>\<open>waterGoal\<close>.
\<close>

definition INITIAL_USER :: "string \<Rightarrow> UserProfile" where
  "INITIAL_USER loaded =
     \<lparr> name = JStr ''Guest'',
       gender = MALE,
       age = Fin 25,
       height = Fin 170,
       currentWeight = Fin 70,
       targetWeight = Fin 65,
       activityLevel = SEDENTARY,
       goalType = LOSE_WEIGHT,
       manualTDEE = None,
       updatedAt = loaded,
       streak = JUndefined,
       lastLogTimestamp = JUndefined,
       waterGoal = JUndefined \<rparr>"

subsection \<open>The daily target: \<^verbatim>\<open>calculateTDEE\<close>\<close>

text \<open>The guard \<^verbatim>\<open>user.manualTDEE && user.manualTDEE > 0\<close>.\<close>

definition manual_override :: "UserProfile \<Rightarrow> bool" where
  "manual_override user =
     (case manualTDEE user of
        None \<Rightarrow> False
      | Some m \<Rightarrow> truthy_num m \<and> js_gt m (Fin 0))"

text \<open>\<^verbatim>\<open>calculateTDEE\<close> of \<^verbatim>\<open>App.tsx\<close>.\<close>

definition calculateTDEE :: "UserProfile \<Rightarrow> jsnum" where
  "calculateTDEE user =
     (if manual_override user then the (manualTDEE user)
      else
        let bmr =
              (if gender user = MALE
               then Fin 10 * currentWeight user + Fin (625 / 100) * height user - Fin 5 * age user + Fin 5
               else Fin 10 * currentWeight user + Fin (625 / 100) * height user - Fin 5 * age user - Fin 161);
            tdee = bmr * activityLevel user
        in case goalType user of
             LOSE_WEIGHT \<Rightarrow> Math_round (tdee - Fin 1000)
           | GAIN_WEIGHT \<Rightarrow> Math_round (tdee + Fin 1000)
           | MAINTAIN \<Rightarrow> Math_round tdee)"

text \<open>
  The earlier copy of the same function that stands in the second half of
  \<^verbatim>\<open>types/types.ts\<close>: the same code with 500 in the place of 1000.
\<close>

definition calculateTDEE_earlier :: "UserProfile \<Rightarrow> jsnum" where
  "calculateTDEE_earlier user =
     (if manual_override user then the (manualTDEE user)
      else
        let bmr =
              (if gender user = MALE
               then Fin 10 * currentWeight user + Fin (625 / 100) * height user - Fin 5 * age user + Fin 5
               else Fin 10 * currentWeight user + Fin (625 / 100) * height user - Fin 5 * age user - Fin 161);
            tdee = bmr * activityLevel user
        in case goalType user of
             LOSE_WEIGHT \<Rightarrow> Math_round (tdee - Fin 500)
           | GAIN_WEIGHT \<Rightarrow> Math_round (tdee + Fin 500)
           | MAINTAIN \<Rightarrow> Math_round tdee)"

text \<open>
  The formula in the words of the specification: the Mifflin-St Jeor rate, the activity
  multiplier and an adjustment by a fixed offset \<open>C\<close>.
\<close>

definition spec_BMR :: "UserProfile \<Rightarrow> jsnum" where
  "spec_BMR user =
     (case gender user of
        MALE \<Rightarrow> Fin 10 * currentWeight user + Fin (625 / 100) * height user - Fin 5 * age user + Fin 5
      | FEMALE \<Rightarrow> Fin 10 * currentWeight user + Fin (625 / 100) * height user - Fin 5 * age user - Fin 161)"

definition spec_adjustment :: "rat \<Rightarrow> GoalType \<Rightarrow> jsnum" where
  "spec_adjustment C goal =
     (case goal of LOSE_WEIGHT \<Rightarrow> Fin (- C) | GAIN_WEIGHT \<Rightarrow> Fin C | MAINTAIN \<Rightarrow> Fin 0)"

definition spec_unrounded :: "rat \<Rightarrow> UserProfile \<Rightarrow> jsnum" where
  "spec_unrounded C user = spec_BMR user * activityLevel user + spec_adjustment C (goalType user)"

definition spec_target :: "rat \<Rightarrow> UserProfile \<Rightarrow> jsnum" where
  "spec_target C user = Math_round (spec_unrounded C user)"

subsection \<open>The daily logs and their two mutators\<close>

text \<open>
  \<^verbatim>\<open>interface FoodItem\<close> and \<^verbatim>\<open>interface DailyLog\<close>. The logs that the handlers
  create have no \<^verbatim>\<open>weightRecorded\<close> and no \<^verbatim>\<open>waterIntake\<close>: \<open>None\<close> is the
  missing property.
\<close>

record FoodItem =
  item_id :: string
  item_name :: string
  calories :: jsnum
  timestamp :: string

record DailyLog =
  date :: string
  foods :: "FoodItem list"
  totalCalories :: jsnum
  weightRecorded :: "jsnum option"
  waterIntake :: "jsnum option"

text \<open>
  \<^verbatim>\<open>Record<string, DailyLog>\<close>: the object's properties in their order. Writing a
  key keeps the place of a key that is there and appends a new one.
\<close>

type_synonym Logs = "(string \<times> DailyLog) list"

text \<open>The log that stands in for a date without one: \<^verbatim>\<open>{date: today, foods: [], totalCalories: 0}\<close>.\<close>

definition empty_log :: "string \<Rightarrow> DailyLog" where
  "empty_log today =
     \<lparr> date = today, foods = [], totalCalories = Fin 0, weightRecorded = None, waterIntake = None \<rparr>"

text \<open>
  \<^verbatim>\<open>handleAddFood\<close>, as the update it passes to \<^verbatim>\<open>setLogs\<close>. \<open>today\<close> is
  \<^verbatim>\<open>getTodayDateString()\<close>, \<open>foodInput\<close> and \<open>calInput\<close> are the form's two
  fields, \<open>now_ms\<close> is \<^verbatim>\<open>Date.now().toString()\<close> and \<open>now_iso\<close> is
  \<^verbatim>\<open>new Date().toISOString()\<close>. Resetting the form is left out.
\<close>

definition handleAddFood ::
  "string \<Rightarrow> string \<Rightarrow> string \<Rightarrow> string \<Rightarrow> string \<Rightarrow> Logs \<Rightarrow> Logs" where
  "handleAddFood today foodInput calInput now_ms now_iso prev =
     (if foodInput = [] then prev
      else
        let cal = parseInt calInput;
            newFood = \<lparr> item_id = now_ms, item_name = foodInput, calories = cal, timestamp = now_iso \<rparr>;
            todayLog = (case map_of prev today of Some l \<Rightarrow> l | None \<Rightarrow> empty_log today)
        in AList.update today
             (todayLog \<lparr> foods := foods todayLog @ [newFood],
                         totalCalories := totalCalories todayLog + cal \<rparr>)
             prev)"

text \<open>\<^verbatim>\<open>updatedFoods.reduce((sum, f) => sum + f.calories, 0)\<close>.\<close>

definition sum_calories :: "FoodItem list \<Rightarrow> jsnum" where
  "sum_calories fs = foldl (\<lambda>sum f. sum + calories f) (Fin 0) fs"

text \<open>\<^verbatim>\<open>handleDeleteFood\<close>, as the update it passes to \<^verbatim>\<open>setLogs\<close>.\<close>

definition handleDeleteFood :: "string \<Rightarrow> string \<Rightarrow> Logs \<Rightarrow> Logs" where
  "handleDeleteFood today foodId prev =
     (case map_of prev today of
        None \<Rightarrow> prev
      | Some todayLog \<Rightarrow>
          let updatedFoods = filter (\<lambda>f. item_id f \<noteq> foodId) (foods todayLog);
              newTotal = sum_calories updatedFoods
          in AList.update today
               (todayLog \<lparr> foods := updatedFoods, totalCalories := newTotal \<rparr>)
               prev)"








subsection \<open>The application state and its export\<close>

text \<open>
  The two pieces of state that the handlers write. \<^verbatim>\<open>setLogs(data.logs)\<close> installs
  whatever value the imported document holds under \<^verbatim>\<open>logs\<close>, so the logs are kept
  here as the JavaScript value they are; \<open>Logs_object\<close> below gives the value of a
  typed mapping.
\<close>

record AppState =
  cur_user :: UserProfile
  cur_logs :: jsval

definition Gender_value :: "Gender \<Rightarrow> string" where
  "Gender_value g = (case g of MALE \<Rightarrow> ''male'' | FEMALE \<Rightarrow> ''female'')"

definition GoalType_value :: "GoalType \<Rightarrow> string" where
  "GoalType_value g =
     (case g of LOSE_WEIGHT \<Rightarrow> ''lose'' | MAINTAIN \<Rightarrow> ''maintain'' | GAIN_WEIGHT \<Rightarrow> ''gain'')"

text \<open>
  The objects that the typed records are at run time. An optional field that is missing
  (\<open>None\<close>, or \<open>JUndefined\<close> where the field holds any value) is no property of
  the object.
\<close>

definition optional_num :: "string \<Rightarrow> jsnum option \<Rightarrow> (string \<times> jsval) list" where
  "optional_num k n = (case n of None \<Rightarrow> [] | Some x \<Rightarrow> [(k, JNum x)])"

definition optional_val :: "string \<Rightarrow> jsval \<Rightarrow> (string \<times> jsval) list" where
  "optional_val k v = (if v = JUndefined then [] else [(k, v)])"

definition UserProfile_object :: "UserProfile \<Rightarrow> jsval" where
  "UserProfile_object u =
     JObj ([(''name'', name u),
            (''gender'', JStr (Gender_value (gender u))),
            (''age'', JNum (age u)),
            (''height'', JNum (height u)),
            (''currentWeight'', JNum (currentWeight u)),
            (''targetWeight'', JNum (targetWeight u)),
            (''activityLevel'', JNum (activityLevel u)),
            (''goalType'', JStr (GoalType_value (goalType u)))]
           @ optional_num ''manualTDEE'' (manualTDEE u)
           @ [(''updatedAt'', JStr (updatedAt u))]
           @ optional_val ''streak'' (streak u)
           @ optional_val ''lastLogTimestamp'' (lastLogTimestamp u)
           @ optional_val ''waterGoal'' (waterGoal u))"

definition FoodItem_object :: "FoodItem \<Rightarrow> jsval" where
  "FoodItem_object f =
     JObj [(''id'', JStr (item_id f)),
           (''name'', JStr (item_name f)),
           (''calories'', JNum (calories f)),
           (''timestamp'', JStr (timestamp f))]"

definition DailyLog_object :: "DailyLog \<Rightarrow> jsval" where
  "DailyLog_object l =
     JObj ([(''date'', JStr (date l)),
            (''foods'', JArr (map FoodItem_object (foods l))),
            (''totalCalories'', JNum (totalCalories l))]
           @ optional_num ''weightRecorded'' (weightRecorded l)
           @ optional_num ''waterIntake'' (waterIntake l))"

definition Logs_object :: "Logs \<Rightarrow> jsval" where
  "Logs_object ls = JObj (map (\<lambda>(d, l). (d, DailyLog_object l)) ls)"

text \<open>
  \<^verbatim>\<open>handleExportData\<close>: the document \<^verbatim>\<open>{user, logs, version: '1.0', exportedAt}\<close>,
  whose \<^verbatim>\<open>JSON.stringify\<close> is the downloaded file. \<open>now\<close> is
  \<^verbatim>\<open>new Date().toISOString()\<close>.
\<close>

definition handleExportData :: "string \<Rightarrow> AppState \<Rightarrow> jsval" where
  "handleExportData now st =
     JObj [(''user'', UserProfile_object (cur_user st)),
           (''logs'', cur_logs st),
           (''version'', JStr ''1.0''),
           (''exportedAt'', JStr now)]"

text \<open>
  What \<^verbatim>\<open>JSON.parse(JSON.stringify(v))\<close> gives for a value \<^verbatim>\<open>v\<close> made of plain
  data: \<^verbatim>\<open>NaN\<close> and the infinities are written as \<^verbatim>\<open>null\<close>, a property whose
  value is \<^verbatim>\<open>undefined\<close> is left out, an \<^verbatim>\<open>undefined\<close> array element is
  written as \<^verbatim>\<open>null\<close>, and everything else reads back as it was. (At top level
  \<^verbatim>\<open>undefined\<close> has no JSON text; the exported document is an object.)
\<close>

fun JSON_reparse :: "jsval \<Rightarrow> jsval" where
  "JSON_reparse JUndefined = JNull"
| "JSON_reparse JNull = JNull"
| "JSON_reparse (JBool b) = JBool b"
| "JSON_reparse (JNum (Fin a)) = JNum (Fin a)"
| "JSON_reparse (JNum n) = JNull"
| "JSON_reparse (JStr s) = JStr s"
| "JSON_reparse (JArr xs) = JArr (map JSON_reparse xs)"
| "JSON_reparse (JObj kvs) =
     JObj (map (\<lambda>(k, v). (k, JSON_reparse v)) (filter (\<lambda>(k, v). v \<noteq> JUndefined) kvs))"

subsection \<open>The import: \<^verbatim>\<open>handleFileChange\<close>\<close>

text \<open>
  The modals that the import opens, by the call of \<^verbatim>\<open>showModal\<close> that opens them:
  the request to confirm (with the two texts put into its message, and the document that
  its \<^verbatim>\<open>onConfirm\<close> closes over), the error for a document without \<^verbatim>\<open>user\<close>
  or \<^verbatim>\<open>logs\<close>, and the error of the \<^verbatim>\<open>catch\<close> block. The Thai wording of the
  messages is left out.
\<close>

datatype js_error = SyntaxError | TypeError

datatype modal =
    ConfirmModal "jstext option" jstext jsval
  | FormatErrorModal
  | CaughtErrorModal js_error

fun is_error_modal :: "modal \<Rightarrow> bool" where
  "is_error_modal (ConfirmModal n w d) = False"
| "is_error_modal FormatErrorModal = True"
| "is_error_modal (CaughtErrorModal e) = True"

text \<open>
  The two interpolations of \<^verbatim>\<open>confirmMsg\<close>: \<^verbatim>\<open>${data.user.name || '...'}\<close>
  (\<open>None\<close> for the placeholder) and \<^verbatim>\<open>${data.user.currentWeight}\<close>. The result is
  \<open>None\<close> when a conversion throws.
\<close>

definition confirmMsg :: "jsval \<Rightarrow> (jstext option \<times> jstext) option" where
  "confirmMsg data =
     (let u = js_get data ''user'' in
      do {
        n \<leftarrow> (if truthy (js_get u ''name'') then map_option Some (String_of (js_get u ''name''))
              else Some None);
        w \<leftarrow> String_of (js_get u ''currentWeight'');
        Some (n, w)
      })"

text \<open>
  \<^verbatim>\<open>reader.onload\<close>. \<open>JSON_parse\<close> is the platform's \<^verbatim>\<open>JSON.parse\<close>, \<open>None\<close>
  where it throws a \<^verbatim>\<open>SyntaxError\<close>; \<open>content\<close> is the text of the file. Reading
  a property of \<^verbatim>\<open>null\<close> throws. Every exception of the \<^verbatim>\<open>try\<close> block ends in
  the error modal of the \<^verbatim>\<open>catch\<close> block; the \<^verbatim>\<open>finally\<close> block clears the
  file input and touches nothing else. The state is returned as it was handed in: no
  branch writes to it.
\<close>

definition reader_onload ::
  "(string \<Rightarrow> jsval option) \<Rightarrow> string \<Rightarrow> AppState \<Rightarrow> AppState \<times> modal option" where
  "reader_onload JSON_parse content st =
     (if content = [] then (st, None)
      else
        case JSON_parse content of
          None \<Rightarrow> (st, Some (CaughtErrorModal SyntaxError))
        | Some data \<Rightarrow>
            if data = JNull \<or> data = JUndefined then (st, Some (CaughtErrorModal TypeError))
            else if truthy (js_get data ''user'') \<and> truthy (js_get data ''logs'') then
              (case confirmMsg data of
                 None \<Rightarrow> (st, Some (CaughtErrorModal TypeError))
               | Some (n, w) \<Rightarrow> (st, Some (ConfirmModal n w data)))
            else (st, Some FormatErrorModal))"

text \<open>
  \<^verbatim>\<open>handleFileChange\<close>: nothing happens without a chosen file; otherwise the file is
  read as text and handed to \<^verbatim>\<open>reader.onload\<close>. \<open>file\<close> is the text of the chosen
  file, if one was chosen.
\<close>

definition handleFileChange ::
  "(string \<Rightarrow> jsval option) \<Rightarrow> string option \<Rightarrow> AppState \<Rightarrow> AppState \<times> modal option" where
  "handleFileChange JSON_parse file st =
     (case file of
        None \<Rightarrow> (st, None)
      | Some content \<Rightarrow> reader_onload JSON_parse content st)"

text \<open>\<^verbatim>\<open>safeNum\<close>; \<open>None\<close> when \<^verbatim>\<open>Number(val)\<close> throws.\<close>

definition safeNum :: "jsval \<Rightarrow> jsnum \<Rightarrow> jsnum option" where
  "safeNum val fallback =
     do {
       n \<leftarrow> Number val;
       Some (if n = Fin 0 \<or> \<not> isNaN n then n else fallback)
     }"

text \<open>
  The same helper with the plain guard \<^verbatim>\<open>!isNaN(n)\<close>, for comparison.
\<close>

definition safeNum_plain :: "jsval \<Rightarrow> jsnum \<Rightarrow> jsnum option" where
  "safeNum_plain val fallback =
     do {
       n \<leftarrow> Number val;
       Some (if \<not> isNaN n then n else fallback)
     }"

text \<open>
  A field of \<^verbatim>\<open>{...INITIAL_USER, ...importedUser}\<close> that no later entry of the
  literal overrides: the document's own property when it has one, the default otherwise.
\<close>

definition spread_field :: "jsval \<Rightarrow> string \<Rightarrow> jsval \<Rightarrow> jsval" where
  "spread_field importedUser k dflt =
     (case importedUser of
        JObj kvs \<Rightarrow> (case map_of kvs k of Some v \<Rightarrow> v | None \<Rightarrow> dflt)
      | _ \<Rightarrow> dflt)"

fun toLowerCase_text :: "jstext \<Rightarrow> jstext" where
  "toLowerCase_text (Text s) = Text (toLowerCase s)"
| "toLowerCase_text Digits = Digits"

text \<open>
  \<^verbatim>\<open>validGoals.includes(goal) ? (goal as GoalType) : GoalType.LOSE_WEIGHT\<close>, where
  \<^verbatim>\<open>validGoals\<close> is \<^verbatim>\<open>Object.values(GoalType)\<close>. A text with digits in it is none
  of the three.
\<close>

definition validGoals :: "string list" where
  "validGoals = [''lose'', ''maintain'', ''gain'']"

fun normalize_goal :: "jstext \<Rightarrow> GoalType" where
  "normalize_goal (Text goal) =
     (if goal \<in> set validGoals
      then (if goal = ''lose'' then LOSE_WEIGHT
            else if goal = ''maintain'' then MAINTAIN
            else GAIN_WEIGHT)
      else LOSE_WEIGHT)"
| "normalize_goal Digits = LOSE_WEIGHT"

text \<open>
  The \<^verbatim>\<open>onConfirm\<close> callback of the confirm modal, run when the user accepts.
  \<open>loaded\<close> is the load time in \<^verbatim>\<open>INITIAL_USER\<close>, \<open>now\<close> is
  \<^verbatim>\<open>new Date().toISOString()\<close>. \<open>None\<close> is a \<^verbatim>\<open>TypeError\<close> thrown by a
  conversion: every conversion precedes \<^verbatim>\<open>setUser\<close> and \<^verbatim>\<open>setLogs\<close>, so nothing
  has been written then. The success modal that follows is left out.
\<close>

definition onConfirm :: "string \<Rightarrow> string \<Rightarrow> jsval \<Rightarrow> AppState \<Rightarrow> AppState option" where
  "onConfirm loaded now data st =
     (let importedUser = js_get data ''user'';
          init = INITIAL_USER loaded
      in do {
        cw \<leftarrow> safeNum (js_get importedUser ''currentWeight'') (currentWeight init);
        tw \<leftarrow> safeNum (js_get importedUser ''targetWeight'') (targetWeight init);
        h \<leftarrow> safeNum (js_get importedUser ''height'') (height init);
        a \<leftarrow> safeNum (js_get importedUser ''age'') (age init);
        al \<leftarrow> safeNum (js_get importedUser ''activityLevel'') (activityLevel init);
        g \<leftarrow> map_option toLowerCase_text (String_of (js_get importedUser ''gender''));
        goal \<leftarrow> String_of (js_get importedUser ''goalType'');
        tdee \<leftarrow> Number (js_get importedUser ''manualTDEE'');
        Some \<lparr> cur_user =
                 \<lparr> name = (if truthy (js_get importedUser ''name'')
                            then js_get importedUser ''name'' else name init),
                   gender = (if g = Text ''female'' then FEMALE else MALE),
                   age = a,
                   height = h,
                   currentWeight = cw,
                   targetWeight = tw,
                   activityLevel = al,
                   goalType = normalize_goal goal,
                   manualTDEE = (if js_gt tdee (Fin 0) then Some tdee else None),
                   updatedAt = now,
                   streak = spread_field importedUser ''streak'' (streak init),
                   lastLogTimestamp =
                     spread_field importedUser ''lastLogTimestamp'' (lastLogTimestamp init),
                   waterGoal = spread_field importedUser ''waterGoal'' (waterGoal init) \<rparr>,
               cur_logs = js_get data ''logs'' \<rparr>
      })"

text \<open>
  A stand-in for \<^verbatim>\<open>JSON.parse\<close> that knows one text: it reads \<open>text\<close> as \<open>v\<close>
  and rejects every other input.
\<close>

definition parses_as :: "string \<Rightarrow> jsval \<Rightarrow> string \<Rightarrow> jsval option" where
  "parses_as text v s = (if s = text then Some v else None)"

subsection \<open>Conditions that the statements below speak of\<close>

text \<open>The profile's \<^verbatim>\<open>manualTDEE\<close> is unset or not greater than 0.\<close>

definition manual_unset_or_not_positive :: "UserProfile \<Rightarrow> bool" where
  "manual_unset_or_not_positive user =
     (case manualTDEE user of None \<Rightarrow> True | Some m \<Rightarrow> \<not> js_gt m (Fin 0))"

text \<open>\<^verbatim>\<open>Number.isFinite\<close>.\<close>

fun isFinite :: "jsnum \<Rightarrow> bool" where
  "isFinite (Fin a) = True"
| "isFinite x = False"

text \<open>
  The numeric override in the words of the specification: the value is parsed as a
  number; exactly zero or a number that is not \<^verbatim>\<open>NaN\<close> is kept, anything else
  falls back to the default.
\<close>

definition spec_numeric_override :: "jsval \<Rightarrow> jsnum \<Rightarrow> jsnum" where
  "spec_numeric_override v dflt =
     (let n = ToNumber v in if n = Fin 0 \<or> \<not> isNaN n then n else dflt)"

text \<open>The values of the document that \<^verbatim>\<open>onConfirm\<close> converts.\<close>

definition converted_values :: "jsval \<Rightarrow> jsval list" where
  "converted_values data =
     map (js_get (js_get data ''user''))
       [''currentWeight'', ''targetWeight'', ''height'', ''age'', ''activityLevel'',
        ''gender'', ''goalType'', ''manualTDEE'']"

text \<open>
  A state that an export and an import reproduce: the profile has a non-empty string for
  its name, finite numbers in its numeric fields, a \<^verbatim>\<open>manualTDEE\<close> that is unset
  or a finite number above 0, and auxiliary fields that are missing or plain JSON data;
  the logs hold finite numbers.
\<close>

definition json_data :: "jsval \<Rightarrow> bool" where
  "json_data v = (v = JUndefined \<or> JSON_reparse v = v)"

definition valid_profile :: "UserProfile \<Rightarrow> bool" where
  "valid_profile u =
     ((case name u of JStr s \<Rightarrow> s \<noteq> [] | _ \<Rightarrow> False)
      \<and> isFinite (age u) \<and> isFinite (height u) \<and> isFinite (currentWeight u)
      \<and> isFinite (targetWeight u) \<and> isFinite (activityLevel u)
      \<and> (case manualTDEE u of None \<Rightarrow> True | Some m \<Rightarrow> isFinite m \<and> js_gt m (Fin 0))
      \<and> json_data (streak u) \<and> json_data (lastLogTimestamp u) \<and> json_data (waterGoal u))"

definition finite_log :: "DailyLog \<Rightarrow> bool" where
  "finite_log l =
     (isFinite (totalCalories l)
      \<and> list_all (\<lambda>f. isFinite (calories f)) (foods l)
      \<and> (case weightRecorded l of None \<Rightarrow> True | Some w \<Rightarrow> isFinite w)
      \<and> (case waterIntake l of None \<Rightarrow> True | Some w \<Rightarrow> isFinite w))"

definition finite_logs :: "Logs \<Rightarrow> bool" where
  "finite_logs ls = list_all (\<lambda>(d, l). finite_log l) ls"

section \<open>Properties\<close>

subsection \<open>Arithmetic of the special values\<close>

lemma add_Fin_0: "x + Fin 0 = x"
  by (cases x) simp_all

lemma minus_Fin: "x - Fin c = x + Fin (- c)"
  by (simp add: minus_jsnum_def)

lemma js_gt_0_truthy: "js_gt m (Fin 0) \<Longrightarrow> truthy_num m"
  by (cases m) simp_all

lemma manual_override_iff:
  "manual_override user \<longleftrightarrow> \<not> manual_unset_or_not_positive user"
  by (auto simp: manual_override_def manual_unset_or_not_positive_def js_gt_0_truthy
      split: option.splits)

lemma spec_BMR_code:
  "spec_BMR user =
     (if gender user = MALE
      then Fin 10 * currentWeight user + Fin (625 / 100) * height user - Fin 5 * age user + Fin 5
      else Fin 10 * currentWeight user + Fin (625 / 100) * height user - Fin 5 * age user - Fin 161)"
  by (cases "gender user") (simp_all add: spec_BMR_def)

subsection \<open>The daily target\<close>

lemma calculateTDEE_spec_target:
  assumes "\<not> manual_override user"
  shows "calculateTDEE user = spec_target 1000 user"
    and "calculateTDEE_earlier user = spec_target 500 user"
  using assms
  by (cases "goalType user";
      simp add: calculateTDEE_def calculateTDEE_earlier_def spec_target_def spec_unrounded_def
        spec_adjustment_def spec_BMR_code Let_def minus_Fin add_Fin_0)+





text \<open>
  Claim C3. A \<^verbatim>\<open>manualTDEE\<close> that is set and greater than 0 is returned as it is,
  whatever the other fields of the profile hold.
\<close>

theorem calculateTDEE_manual:
  assumes "manualTDEE user = Some m" and "js_gt m (Fin 0)"
  shows "calculateTDEE user = m \<and> calculateTDEE_earlier user = m"
  using assms
  by (simp add: calculateTDEE_def calculateTDEE_earlier_def manual_override_def js_gt_0_truthy)

theorem calculateTDEE_manual_witness:
  "manualTDEE ((INITIAL_USER ''2024-01-01T00:00:00.000Z'')
       \<lparr> gender := FEMALE, goalType := GAIN_WEIGHT, manualTDEE := Some (Fin 1800) \<rparr>)
     = Some (Fin 1800)
   \<and> js_gt (Fin 1800) (Fin 0)
   \<and> calculateTDEE ((INITIAL_USER ''2024-01-01T00:00:00.000Z'')
       \<lparr> gender := FEMALE, goalType := GAIN_WEIGHT, manualTDEE := Some (Fin 1800) \<rparr>)
     = Fin 1800"
proof -
  let ?u = "(INITIAL_USER ''2024-01-01T00:00:00.000Z'')
       \<lparr> gender := FEMALE, goalType := GAIN_WEIGHT, manualTDEE := Some (Fin 1800) \<rparr>"
  have h1: "manualTDEE ?u = Some (Fin 1800)" by simp
  have h2: "js_gt (Fin 1800) (Fin 0)" by simp
  from h1 h2 calculateTDEE_manual [OF h1 h2] show ?thesis
    by blast
qed

subsection \<open>The log mutators\<close>











lemma map_of_update: "map_of (AList.update k v al) = (map_of al)(k \<mapsto> v)"
  by (rule AList.update_conv')









lemma map_fst_update_present:
  "map_of al k = Some v \<Longrightarrow> map fst (AList.update k w al) = map fst al"
  by (induction al) (auto split: if_splits)

text \<open>
  Claim C7. \<^verbatim>\<open>handleDeleteFood\<close> returns the mapping as it is when the date has no
  log. Otherwise the log of the date keeps, in their order, the entries whose id is not
  the given one, its \<^verbatim>\<open>totalCalories\<close> is the sum over the entries kept (whatever
  the field held before), and the other dates and the order of the dates stay as they
  were. Adding 300 kcal and 450 kcal to the empty mapping and deleting the first entry
  leaves the second entry and a total of 450.
\<close>

theorem handleDeleteFood_spec:
  "(map_of prev today = None \<longrightarrow> handleDeleteFood today foodId prev = prev)
   \<and> (\<forall>todayLog. map_of prev today = Some todayLog \<longrightarrow>
         map_of (handleDeleteFood today foodId prev) today
           = Some (todayLog \<lparr> foods := filter (\<lambda>f. item_id f \<noteq> foodId) (foods todayLog),
                              totalCalories :=
                                sum_calories (filter (\<lambda>f. item_id f \<noteq> foodId) (foods todayLog)) \<rparr>)
         \<and> (\<forall>d. d \<noteq> today \<longrightarrow> map_of (handleDeleteFood today foodId prev) d = map_of prev d)
         \<and> map fst (handleDeleteFood today foodId prev) = map fst prev)
   \<and> handleDeleteFood ''2024-05-01'' ''1714550000000''
        (handleAddFood ''2024-05-01'' ''Curry'' ''450'' ''1714550000001'' ''2024-05-01T08:00:01.000Z''
          (handleAddFood ''2024-05-01'' ''Rice'' ''300'' ''1714550000000'' ''2024-05-01T08:00:00.000Z'' []))
      = [(''2024-05-01'',
          \<lparr> date = ''2024-05-01'',
            foods = [\<lparr> item_id = ''1714550000001'', item_name = ''Curry'', calories = Fin 450,
                       timestamp = ''2024-05-01T08:00:01.000Z'' \<rparr>],
            totalCalories = Fin 450, weightRecorded = None, waterIntake = None \<rparr>)]"
proof (intro conjI allI impI)
  show "handleDeleteFood today foodId prev = prev" if "map_of prev today = None"
    using that by (simp add: handleDeleteFood_def)
next
  fix todayLog assume s: "map_of prev today = Some todayLog"
  show "map_of (handleDeleteFood today foodId prev) today
           = Some (todayLog \<lparr> foods := filter (\<lambda>f. item_id f \<noteq> foodId) (foods todayLog),
                              totalCalories :=
                                sum_calories (filter (\<lambda>f. item_id f \<noteq> foodId) (foods todayLog)) \<rparr>)"
    using s by (simp add: handleDeleteFood_def Let_def map_of_update)
  show "map_of (handleDeleteFood today foodId prev) d = map_of prev d" if "d \<noteq> today" for d
    using s that by (simp add: handleDeleteFood_def Let_def map_of_update)
  show "map fst (handleDeleteFood today foodId prev) = map fst prev"
    using s by (simp add: handleDeleteFood_def Let_def map_fst_update_present)
next
  have p1: "parseInt ''300'' = Fin 300" by code_simp
  have p2: "parseInt ''450'' = Fin 450" by code_simp
  show "handleDeleteFood ''2024-05-01'' ''1714550000000''
        (handleAddFood ''2024-05-01'' ''Curry'' ''450'' ''1714550000001'' ''2024-05-01T08:00:01.000Z''
          (handleAddFood ''2024-05-01'' ''Rice'' ''300'' ''1714550000000'' ''2024-05-01T08:00:00.000Z'' []))
      = [(''2024-05-01'',
          \<lparr> date = ''2024-05-01'',
            foods = [\<lparr> item_id = ''1714550000001'', item_name = ''Curry'', calories = Fin 450,
                       timestamp = ''2024-05-01T08:00:01.000Z'' \<rparr>],
            totalCalories = Fin 450, weightRecorded = None, waterIntake = None \<rparr>)]"
    by (simp add: handleDeleteFood_def handleAddFood_def Let_def p1 p2 empty_log_def sum_calories_def)
qed

theorem handleDeleteFood_spec_witness:
  "map_of [(''2024-05-01'', empty_log ''2024-05-01'')] ''2024-05-02'' = None
   \<and> handleDeleteFood ''2024-05-02'' ''7'' [(''2024-05-01'', empty_log ''2024-05-01'')]
       = [(''2024-05-01'', empty_log ''2024-05-01'')]
   \<and> map_of [(''2024-05-01'', empty_log ''2024-05-01'')] ''2024-05-01''
       = Some (empty_log ''2024-05-01'')
   \<and> map_of (handleDeleteFood ''2024-05-01'' ''7'' [(''2024-05-01'', empty_log ''2024-05-01'')])
        ''2024-05-01''
       = Some (empty_log ''2024-05-01'')"
proof -
  let ?prev = "[(''2024-05-01'', empty_log ''2024-05-01'')]"
  have n: "map_of ?prev ''2024-05-02'' = None" by simp
  have s: "map_of ?prev ''2024-05-01'' = Some (empty_log ''2024-05-01'')" by simp
  from handleDeleteFood_spec [of ?prev "''2024-05-02''" "''7''"] n
  have a: "handleDeleteFood ''2024-05-02'' ''7'' ?prev = ?prev" by blast
  from handleDeleteFood_spec [of ?prev "''2024-05-01''" "''7''"] s
  have "map_of (handleDeleteFood ''2024-05-01'' ''7'' ?prev) ''2024-05-01''
      = Some ((empty_log ''2024-05-01'') \<lparr> foods := filter (\<lambda>f. item_id f \<noteq> ''7'') (foods (empty_log ''2024-05-01'')),
            totalCalories := sum_calories (filter (\<lambda>f. item_id f \<noteq> ''7'') (foods (empty_log ''2024-05-01''))) \<rparr>)"
    by blast
  then have b: "map_of (handleDeleteFood ''2024-05-01'' ''7'' ?prev) ''2024-05-01''
      = Some (empty_log ''2024-05-01'')"
    by (simp add: empty_log_def sum_calories_def)
  from n a s b show ?thesis by blast
qed

subsection \<open>The numeric conversions of the import\<close>

lemma Number_None: "Number v = None \<longleftrightarrow> cannot_convert v"
  by (simp add: Number_def)

lemma String_of_None: "String_of v = None \<longleftrightarrow> cannot_convert v"
  by (simp add: String_of_def)

lemma safeNum_None: "safeNum v d = None \<longleftrightarrow> cannot_convert v"
  by (simp add: safeNum_def Number_def)

lemma onConfirm_None_iff:
  "onConfirm loaded now data st = None \<longleftrightarrow> list_ex cannot_convert (converted_values data)"
  by (simp add: onConfirm_def Let_def converted_values_def bind_eq_None_conv
      safeNum_None Number_None String_of_None)

lemma safeNum_Some:
  "safeNum v d = Some x \<Longrightarrow> x = spec_numeric_override v d"
  by (auto simp: safeNum_def Number_def spec_numeric_override_def Let_def split: bind_splits if_splits)

text \<open>
  Claim C10. \<^verbatim>\<open>safeNum(v, d)\<close> is \<^verbatim>\<open>d\<close> when \<^verbatim>\<open>Number(v)\<close> is \<^verbatim>\<open>NaN\<close>
  and \<^verbatim>\<open>Number(v)\<close> otherwise (and throws where \<^verbatim>\<open>Number(v)\<close> throws); its
  guard \<^verbatim>\<open>n === 0 || !isNaN(n)\<close> says the same as \<^verbatim>\<open>!isNaN(n)\<close>, so the helper
  equals the one with the plain guard, and a zero is kept like any other number.
\<close>

theorem safeNum_guard:
  "safeNum v d = map_option (\<lambda>n. if isNaN n then d else n) (Number v)
   \<and> safeNum v d = safeNum_plain v d
   \<and> (\<forall>n. (n = Fin 0 \<or> \<not> isNaN n) = (\<not> isNaN n))
   \<and> safeNum (JNum (Fin 0)) d = Some (Fin 0)"
proof -
  have g: "(n = Fin 0 \<or> \<not> isNaN n) = (\<not> isNaN n)" for n
    by (cases n) simp_all
  have a: "safeNum v d = map_option (\<lambda>n. if isNaN n then d else n) (Number v)"
    by (cases "Number v") (auto simp: safeNum_def g)
  have b: "safeNum v d = safeNum_plain v d"
    by (simp add: safeNum_def safeNum_plain_def g)
  have c: "safeNum (JNum (Fin 0)) d = Some (Fin 0)"
    by (simp add: safeNum_def Number_def)
  from a b c g show ?thesis by blast
qed

theorem safeNum_guard_witness:
  "safeNum (JStr ''abc'') (Fin 70) = Some (Fin 70)
   \<and> safeNum (JNum (Fin 0)) (Fin 25) = Some (Fin 0)
   \<and> safeNum (JStr ''abc'') (Fin 70) = safeNum_plain (JStr ''abc'') (Fin 70)"
proof -
  have n: "Number (JStr ''abc'') = Some NaN"
    by code_simp
  from safeNum_guard [of "JStr ''abc''" "Fin 70"] n
  have a: "safeNum (JStr ''abc'') (Fin 70) = Some (Fin 70)"
    by simp
  from safeNum_guard [of "JNum (Fin 0)" "Fin 25"]
  have b: "safeNum (JNum (Fin 0)) (Fin 25) = Some (Fin 0)"
    by blast
  from safeNum_guard [of "JStr ''abc''" "Fin 70"]
  have c: "safeNum (JStr ''abc'') (Fin 70) = safeNum_plain (JStr ''abc'') (Fin 70)"
    by blast
  from a b c show ?thesis by blast
qed

lemma onConfirm_fields:
  assumes "onConfirm loaded now data st = Some st'"
  shows "currentWeight (cur_user st')
           = spec_numeric_override (js_get (js_get data ''user'') ''currentWeight'')
               (currentWeight (INITIAL_USER loaded))
    \<and> targetWeight (cur_user st')
           = spec_numeric_override (js_get (js_get data ''user'') ''targetWeight'')
               (targetWeight (INITIAL_USER loaded))
    \<and> height (cur_user st')
           = spec_numeric_override (js_get (js_get data ''user'') ''height'')
               (height (INITIAL_USER loaded))
    \<and> age (cur_user st')
           = spec_numeric_override (js_get (js_get data ''user'') ''age'')
               (age (INITIAL_USER loaded))
    \<and> activityLevel (cur_user st')
           = spec_numeric_override (js_get (js_get data ''user'') ''activityLevel'')
               (activityLevel (INITIAL_USER loaded))"
proof -
  let ?u = "js_get data ''user''" and ?i = "INITIAL_USER loaded"
  from assms obtain cw tw h a al where
    c: "safeNum (js_get ?u ''currentWeight'') (currentWeight ?i) = Some cw"
       "safeNum (js_get ?u ''targetWeight'') (targetWeight ?i) = Some tw"
       "safeNum (js_get ?u ''height'') (height ?i) = Some h"
       "safeNum (js_get ?u ''age'') (age ?i) = Some a"
       "safeNum (js_get ?u ''activityLevel'') (activityLevel ?i) = Some al"
    and u: "currentWeight (cur_user st') = cw" "targetWeight (cur_user st') = tw"
       "height (cur_user st') = h" "age (cur_user st') = a" "activityLevel (cur_user st') = al"
    unfolding onConfirm_def Let_def bind_eq_Some_conv
    by fastforce
  from c u show ?thesis
    by (simp add: safeNum_Some)
qed

text \<open>
  Claim C4. The import throws exactly when one of the values it converts cannot be
  converted. Where it returns a state, each of \<^verbatim>\<open>currentWeight\<close>,
  \<^verbatim>\<open>targetWeight\<close>, \<^verbatim>\<open>height\<close>, \<^verbatim>\<open>age\<close> and \<^verbatim>\<open>activityLevel\<close> is the
  document's value parsed as a number when that is zero or not \<^verbatim>\<open>NaN\<close>, and the
  value of \<^verbatim>\<open>INITIAL_USER\<close> otherwise: a \<^verbatim>\<open>currentWeight\<close> of
  \<^verbatim>\<open>"abc"\<close> gives the default 70, an \<^verbatim>\<open>age\<close> of 0 gives 0.
\<close>

theorem import_numeric_override:
  "(onConfirm loaded now data st = None \<longleftrightarrow> list_ex cannot_convert (converted_values data))
   \<and> (\<forall>st'. onConfirm loaded now data st = Some st' \<longrightarrow>
        currentWeight (cur_user st')
          = spec_numeric_override (js_get (js_get data ''user'') ''currentWeight'')
              (currentWeight (INITIAL_USER loaded))
        \<and> targetWeight (cur_user st')
          = spec_numeric_override (js_get (js_get data ''user'') ''targetWeight'')
              (targetWeight (INITIAL_USER loaded))
        \<and> height (cur_user st')
          = spec_numeric_override (js_get (js_get data ''user'') ''height'')
              (height (INITIAL_USER loaded))
        \<and> age (cur_user st')
          = spec_numeric_override (js_get (js_get data ''user'') ''age'')
              (age (INITIAL_USER loaded))
        \<and> activityLevel (cur_user st')
          = spec_numeric_override (js_get (js_get data ''user'') ''activityLevel'')
              (activityLevel (INITIAL_USER loaded))
        \<and> (js_get (js_get data ''user'') ''currentWeight'' = JStr ''abc''
             \<longrightarrow> currentWeight (cur_user st') = currentWeight (INITIAL_USER loaded)
               \<and> currentWeight (cur_user st') = Fin 70)
        \<and> (js_get (js_get data ''user'') ''age'' = JNum (Fin 0)
             \<longrightarrow> age (cur_user st') = Fin 0))"
proof (intro conjI allI impI)
  show "(onConfirm loaded now data st = None) = list_ex cannot_convert (converted_values data)"
    by (rule onConfirm_None_iff)
next
  fix st' assume c: "onConfirm loaded now data st = Some st'"
  note f = onConfirm_fields [OF c]
  from f show "currentWeight (cur_user st')
          = spec_numeric_override (js_get (js_get data ''user'') ''currentWeight'')
              (currentWeight (INITIAL_USER loaded))" by blast
  from f show "targetWeight (cur_user st')
          = spec_numeric_override (js_get (js_get data ''user'') ''targetWeight'')
              (targetWeight (INITIAL_USER loaded))" by blast
  from f show "height (cur_user st')
          = spec_numeric_override (js_get (js_get data ''user'') ''height'')
              (height (INITIAL_USER loaded))" by blast
  from f show "age (cur_user st')
          = spec_numeric_override (js_get (js_get data ''user'') ''age'')
              (age (INITIAL_USER loaded))" by blast
  from f show "activityLevel (cur_user st')
          = spec_numeric_override (js_get (js_get data ''user'') ''activityLevel'')
              (activityLevel (INITIAL_USER loaded))" by blast
  have abc: "ToNumber (JStr ''abc'') = NaN"
    by code_simp
  {
    assume "js_get (js_get data ''user'') ''currentWeight'' = JStr ''abc''"
    with f abc show "currentWeight (cur_user st') = currentWeight (INITIAL_USER loaded)"
      by (simp add: spec_numeric_override_def)
    then show "currentWeight (cur_user st') = Fin 70"
      by (simp add: INITIAL_USER_def)
  }
  {
    assume "js_get (js_get data ''user'') ''age'' = JNum (Fin 0)"
    with f show "age (cur_user st') = Fin 0"
      by (simp add: spec_numeric_override_def)
  }
qed

theorem import_numeric_override_witness:
  "\<exists>st'. onConfirm ''2024-01-01T00:00:00.000Z'' ''2024-06-01T00:00:00.000Z''
            (JObj [(''user'', JObj [(''currentWeight'', JStr ''abc''), (''age'', JNum (Fin 0))]),
                   (''logs'', JObj [])])
            \<lparr> cur_user = INITIAL_USER ''2024-01-01T00:00:00.000Z'', cur_logs = JObj [] \<rparr>
          = Some st'
        \<and> currentWeight (cur_user st') = Fin 70
        \<and> age (cur_user st') = Fin 0"
proof -
  let ?doc = "JObj [(''user'', JObj [(''currentWeight'', JStr ''abc''), (''age'', JNum (Fin 0))]),
                   (''logs'', JObj [])]"
  let ?st = "\<lparr> cur_user = INITIAL_USER ''2024-01-01T00:00:00.000Z'', cur_logs = JObj [] \<rparr>"
  let ?r = "onConfirm ''2024-01-01T00:00:00.000Z'' ''2024-06-01T00:00:00.000Z'' ?doc ?st"
  note t = import_numeric_override
    [of "''2024-01-01T00:00:00.000Z''" "''2024-06-01T00:00:00.000Z''" ?doc ?st]
  have "\<not> list_ex cannot_convert (converted_values ?doc)"
    by (simp add: converted_values_def)
  with t have "?r \<noteq> None"
    by blast
  then obtain st' where s: "?r = Some st'"
    by blast
  have g: "js_get (js_get ?doc ''user'') ''currentWeight'' = JStr ''abc''"
      "js_get (js_get ?doc ''user'') ''age'' = JNum (Fin 0)"
    by simp_all
  from t s g have "currentWeight (cur_user st') = Fin 70 \<and> age (cur_user st') = Fin 0"
    by blast
  with s show ?thesis
    by blast
qed

subsection \<open>The target is an integer\<close>

lemma isInteger_round: "isFinite x \<Longrightarrow> isInteger (Math_round x)"
  by (cases x) simp_all

text \<open>
  In this model, where the range of doubles has no bound, finite fields give a finite
  value to round; for doubles they do so short of overflow.
\<close>

lemma spec_unrounded_finite:
  assumes "isFinite (age user)" and "isFinite (height user)"
    and "isFinite (currentWeight user)" and "isFinite (activityLevel user)"
  shows "isFinite (spec_unrounded C user)"
proof -
  from assms obtain a h w l where "age user = Fin a" "height user = Fin h"
      "currentWeight user = Fin w" "activityLevel user = Fin l"
    by (metis isFinite.elims(2))
  then show ?thesis
    by (cases "gender user"; cases "goalType user")
       (simp_all add: spec_unrounded_def spec_BMR_def spec_adjustment_def minus_jsnum_def)
qed

text \<open>
  Claim C9, as amended. \<^verbatim>\<open>calculateTDEE\<close> returns an integer for a profile whose
  \<^verbatim>\<open>manualTDEE\<close> is unset or not greater than 0 and whose value before rounding,
  \<^verbatim>\<open>BMR * activityLevel + adj\<close>, is finite, and for a profile whose
  \<^verbatim>\<open>manualTDEE\<close> is an integer greater than 0.
\<close>

theorem calculateTDEE_integer:
  "(manual_unset_or_not_positive user \<and> isFinite (spec_unrounded 1000 user)
     \<longrightarrow> isInteger (calculateTDEE user))
   \<and> (\<forall>m. manualTDEE user = Some m \<and> js_gt m (Fin 0) \<and> isInteger m
     \<longrightarrow> isInteger (calculateTDEE user))"
proof (intro conjI allI impI)
  assume a: "manual_unset_or_not_positive user \<and> isFinite (spec_unrounded 1000 user)"
  then have "\<not> manual_override user"
    by (simp add: manual_override_iff)
  then have "calculateTDEE user = Math_round (spec_unrounded 1000 user)"
    by (simp add: calculateTDEE_spec_target(1) spec_target_def)
  with a show "isInteger (calculateTDEE user)"
    by (simp add: isInteger_round)
next
  fix m assume "manualTDEE user = Some m \<and> js_gt m (Fin 0) \<and> isInteger m"
  then show "isInteger (calculateTDEE user)"
    by (simp add: calculateTDEE_def manual_override_def js_gt_0_truthy)
qed

theorem calculateTDEE_integer_witness:
  "manual_unset_or_not_positive (INITIAL_USER ''2024-01-01T00:00:00.000Z'')
   \<and> isFinite (spec_unrounded 1000 (INITIAL_USER ''2024-01-01T00:00:00.000Z''))
   \<and> isInteger (calculateTDEE (INITIAL_USER ''2024-01-01T00:00:00.000Z''))
   \<and> isInteger (calculateTDEE
        ((INITIAL_USER ''2024-01-01T00:00:00.000Z'') \<lparr> manualTDEE := Some (Fin 1800) \<rparr>))"
proof -
  let ?u = "INITIAL_USER ''2024-01-01T00:00:00.000Z''"
  have f: "isFinite (spec_unrounded 1000 ?u)"
    by (rule spec_unrounded_finite) (simp_all add: INITIAL_USER_def SEDENTARY_def)
  have h: "manual_unset_or_not_positive ?u \<and> isFinite (spec_unrounded 1000 ?u)"
    using f by (simp add: manual_unset_or_not_positive_def INITIAL_USER_def)
  with calculateTDEE_integer [of ?u] have a: "isInteger (calculateTDEE ?u)"
    by blast
  have m: "manualTDEE (?u \<lparr> manualTDEE := Some (Fin 1800) \<rparr>) = Some (Fin 1800)
      \<and> js_gt (Fin 1800) (Fin 0) \<and> isInteger (Fin 1800)"
    by simp
  with calculateTDEE_integer [of "?u \<lparr> manualTDEE := Some (Fin 1800) \<rparr>"]
  have b: "isInteger (calculateTDEE (?u \<lparr> manualTDEE := Some (Fin 1800) \<rparr>))"
    by blast
  from h a b show ?thesis
    by blast
qed

text \<open>
  Claim C9 as stated fails twice. A document whose \<^verbatim>\<open>manualTDEE\<close> is 1800.5 is
  imported with that value, and the target of the imported profile is 1800.5. A profile
  whose \<^verbatim>\<open>age\<close> is \<^verbatim>\<open>NaN\<close> (what the settings form stores for an emptied field,
  \<^verbatim>\<open>parseInt('')\<close>) has the target \<^verbatim>\<open>NaN\<close>.
\<close>

theorem calculateTDEE_integer_counterexample:
  "map_option (\<lambda>s. calculateTDEE (cur_user s))
     (onConfirm ''2024-01-01T00:00:00.000Z'' ''2024-06-01T00:00:00.000Z''
        (JObj [(''user'', JObj [(''manualTDEE'', JNum (Fin (3601 / 2)))]), (''logs'', JObj [])])
        \<lparr> cur_user = INITIAL_USER ''2024-01-01T00:00:00.000Z'', cur_logs = JObj [] \<rparr>)
     = Some (Fin (3601 / 2))
   \<and> \<not> isInteger (Fin (3601 / 2))
   \<and> calculateTDEE ((INITIAL_USER ''2024-01-01T00:00:00.000Z'') \<lparr> age := parseInt [] \<rparr>) = NaN
   \<and> \<not> isInteger NaN"
  by code_simp

subsection \<open>The import handler\<close>

lemma reader_onload_state: "fst (reader_onload JSON_parse content st) = st"
  by (simp add: reader_onload_def split: option.splits prod.splits)

lemma handleFileChange_state: "fst (handleFileChange JSON_parse file st) = st"
  by (simp add: handleFileChange_def reader_onload_state split: option.splits)

lemma parses_as_self: "parses_as text v text = Some v"
  by (simp add: parses_as_def)

lemma onConfirm_rest:
  assumes "onConfirm loaded now data st = Some st'"
  shows "cur_logs st' = js_get data ''logs''
     \<and> name (cur_user st') =
         (if truthy (js_get (js_get data ''user'') ''name'') then js_get (js_get data ''user'') ''name''
          else name (INITIAL_USER loaded))
     \<and> updatedAt (cur_user st') = now
     \<and> streak (cur_user st') = spread_field (js_get data ''user'') ''streak'' (streak (INITIAL_USER loaded))
     \<and> lastLogTimestamp (cur_user st')
         = spread_field (js_get data ''user'') ''lastLogTimestamp'' (lastLogTimestamp (INITIAL_USER loaded))
     \<and> waterGoal (cur_user st')
         = spread_field (js_get data ''user'') ''waterGoal'' (waterGoal (INITIAL_USER loaded))"
  using assms
  unfolding onConfirm_def Let_def bind_eq_Some_conv
  by fastforce

text \<open>
  Claim C5, as amended. For a text that parses to a value other than \<^verbatim>\<open>null\<close>,
  the format error is reported exactly when \<^verbatim>\<open>user\<close> or \<^verbatim>\<open>logs\<close> is missing
  or falsy. When both are there, the handler asks for confirmation (or, where the
  message cannot be built, shows the error of the \<^verbatim>\<open>catch\<close> block). The state that
  the confirmation installs has the document's \<^verbatim>\<open>logs\<close>, the auxiliary fields of
  the document where it has them and the defaults otherwise, and the numeric fields of
  the override pass.
\<close>

theorem import_format_check:
  assumes "content \<noteq> []" and "JSON_parse content = Some data"
    and "data \<noteq> JNull" and "data \<noteq> JUndefined"
  shows "(snd (handleFileChange JSON_parse (Some content) st) = Some FormatErrorModal
            \<longleftrightarrow> \<not> (truthy (js_get data ''user'') \<and> truthy (js_get data ''logs'')))
       \<and> (truthy (js_get data ''user'') \<and> truthy (js_get data ''logs'') \<longrightarrow>
            handleFileChange JSON_parse (Some content) st =
              (st, Some (case confirmMsg data of
                           None \<Rightarrow> CaughtErrorModal TypeError
                         | Some (n, w) \<Rightarrow> ConfirmModal n w data)))
       \<and> (\<forall>st'. onConfirm loaded now data st = Some st' \<longrightarrow>
            cur_logs st' = js_get data ''logs''
            \<and> streak (cur_user st')
                = spread_field (js_get data ''user'') ''streak'' (streak (INITIAL_USER loaded))
            \<and> lastLogTimestamp (cur_user st')
                = spread_field (js_get data ''user'') ''lastLogTimestamp''
                    (lastLogTimestamp (INITIAL_USER loaded))
            \<and> waterGoal (cur_user st')
                = spread_field (js_get data ''user'') ''waterGoal'' (waterGoal (INITIAL_USER loaded))
            \<and> currentWeight (cur_user st')
                = spec_numeric_override (js_get (js_get data ''user'') ''currentWeight'')
                    (currentWeight (INITIAL_USER loaded))
            \<and> targetWeight (cur_user st')
                = spec_numeric_override (js_get (js_get data ''user'') ''targetWeight'')
                    (targetWeight (INITIAL_USER loaded))
            \<and> height (cur_user st')
                = spec_numeric_override (js_get (js_get data ''user'') ''height'')
                    (height (INITIAL_USER loaded))
            \<and> age (cur_user st')
                = spec_numeric_override (js_get (js_get data ''user'') ''age'')
                    (age (INITIAL_USER loaded))
            \<and> activityLevel (cur_user st')
                = spec_numeric_override (js_get (js_get data ''user'') ''activityLevel'')
                    (activityLevel (INITIAL_USER loaded)))"
proof (intro conjI allI impI)
  show "(snd (handleFileChange JSON_parse (Some content) st) = Some FormatErrorModal)
      = (\<not> (truthy (js_get data ''user'') \<and> truthy (js_get data ''logs'')))"
    using assms
    by (auto simp: handleFileChange_def reader_onload_def split: option.splits)
next
  assume "truthy (js_get data ''user'') \<and> truthy (js_get data ''logs'')"
  with assms show "handleFileChange JSON_parse (Some content) st =
              (st, Some (case confirmMsg data of
                           None \<Rightarrow> CaughtErrorModal TypeError
                         | Some (n, w) \<Rightarrow> ConfirmModal n w data))"
    by (auto simp: handleFileChange_def reader_onload_def split: option.splits)
next
  fix st' assume c: "onConfirm loaded now data st = Some st'"
  note r = onConfirm_rest [OF c]
  from r show "cur_logs st' = js_get data ''logs''" by blast
  from r show "streak (cur_user st')
                = spread_field (js_get data ''user'') ''streak'' (streak (INITIAL_USER loaded))"
    by blast
  from r show "lastLogTimestamp (cur_user st')
                = spread_field (js_get data ''user'') ''lastLogTimestamp''
                    (lastLogTimestamp (INITIAL_USER loaded))"
    by blast
  from r show "waterGoal (cur_user st')
                = spread_field (js_get data ''user'') ''waterGoal'' (waterGoal (INITIAL_USER loaded))"
    by blast
  note f = onConfirm_fields [OF c]
  from f show "currentWeight (cur_user st')
                = spec_numeric_override (js_get (js_get data ''user'') ''currentWeight'')
                    (currentWeight (INITIAL_USER loaded))" by blast
  from f show "targetWeight (cur_user st')
                = spec_numeric_override (js_get (js_get data ''user'') ''targetWeight'')
                    (targetWeight (INITIAL_USER loaded))" by blast
  from f show "height (cur_user st')
                = spec_numeric_override (js_get (js_get data ''user'') ''height'')
                    (height (INITIAL_USER loaded))" by blast
  from f show "age (cur_user st')
                = spec_numeric_override (js_get (js_get data ''user'') ''age'')
                    (age (INITIAL_USER loaded))" by blast
  from f show "activityLevel (cur_user st')
                = spec_numeric_override (js_get (js_get data ''user'') ''activityLevel'')
                    (activityLevel (INITIAL_USER loaded))" by blast
qed

theorem import_format_check_witness:
  \<open>''{"user":{"name":"Ann"},"logs":{}}'' \<noteq> []
   \<and> parses_as ''{"user":{"name":"Ann"},"logs":{}}''
        (JObj [(''user'', JObj [(''name'', JStr ''Ann'')]), (''logs'', JObj [])])
        ''{"user":{"name":"Ann"},"logs":{}}''
      = Some (JObj [(''user'', JObj [(''name'', JStr ''Ann'')]), (''logs'', JObj [])])
   \<and> handleFileChange
        (parses_as ''{"user":{"name":"Ann"},"logs":{}}''
          (JObj [(''user'', JObj [(''name'', JStr ''Ann'')]), (''logs'', JObj [])]))
        (Some ''{"user":{"name":"Ann"},"logs":{}}'')
        \<lparr> cur_user = INITIAL_USER ''2024-01-01T00:00:00.000Z'', cur_logs = JObj [] \<rparr>
      = (\<lparr> cur_user = INITIAL_USER ''2024-01-01T00:00:00.000Z'', cur_logs = JObj [] \<rparr>,
         Some (ConfirmModal (Some (Text ''Ann'')) (Text ''undefined'')
                (JObj [(''user'', JObj [(''name'', JStr ''Ann'')]), (''logs'', JObj [])])))\<close>
proof -
  let ?text = \<open>''{"user":{"name":"Ann"},"logs":{}}''\<close>
  let ?doc = "JObj [(''user'', JObj [(''name'', JStr ''Ann'')]), (''logs'', JObj [])]"
  let ?st = "\<lparr> cur_user = INITIAL_USER ''2024-01-01T00:00:00.000Z'', cur_logs = JObj [] \<rparr>"
  have h1: "?text \<noteq> []" by simp
  have h2: "parses_as ?text ?doc ?text = Some ?doc" by (rule parses_as_self)
  have h3: "?doc \<noteq> JNull" and h4: "?doc \<noteq> JUndefined" by simp_all
  have t: "truthy (js_get ?doc ''user'') \<and> truthy (js_get ?doc ''logs'')" by simp
  have m: "confirmMsg ?doc = Some (Some (Text ''Ann''), Text ''undefined'')"
    by (simp add: confirmMsg_def String_of_def)
  from import_format_check
    [where content = ?text and JSON_parse = "parses_as ?text ?doc" and data = ?doc and st = ?st,
     OF h1 h2 h3 h4] t
  have "handleFileChange (parses_as ?text ?doc) (Some ?text) ?st
      = (?st, Some (case confirmMsg ?doc of
                      None \<Rightarrow> CaughtErrorModal TypeError
                    | Some (n, w) \<Rightarrow> ConfirmModal n w ?doc))"
    by blast
  with m have "handleFileChange (parses_as ?text ?doc) (Some ?text) ?st
      = (?st, Some (ConfirmModal (Some (Text ''Ann'')) (Text ''undefined'') ?doc))"
    by simp
  with h1 h2 show ?thesis by blast
qed

text \<open>
  Claim C5 as stated reports a format error only for a document that lacks both fields.
  A document that has \<^verbatim>\<open>user\<close> and lacks \<^verbatim>\<open>logs\<close> gets the format error too.
\<close>

theorem import_format_check_counterexample:
  \<open>js_get (JObj [(''user'', JObj [(''name'', JStr ''Ann'')])]) ''user''
      = JObj [(''name'', JStr ''Ann'')]
   \<and> handleFileChange
        (parses_as ''{"user":{"name":"Ann"}}'' (JObj [(''user'', JObj [(''name'', JStr ''Ann'')])]))
        (Some ''{"user":{"name":"Ann"}}'')
        \<lparr> cur_user = INITIAL_USER ''2024-01-01T00:00:00.000Z'', cur_logs = JObj [] \<rparr>
      = (\<lparr> cur_user = INITIAL_USER ''2024-01-01T00:00:00.000Z'', cur_logs = JObj [] \<rparr>,
         Some FormatErrorModal)\<close>
  by (simp add: parses_as_def handleFileChange_def reader_onload_def)

text \<open>
  Claim C6, as amended. No input makes \<^verbatim>\<open>handleFileChange\<close> write to the state. A
  non-empty text that is not valid JSON gets the error modal of the \<^verbatim>\<open>catch\<close> block,
  and a non-empty text whose document has no truthy \<^verbatim>\<open>user\<close> or no truthy
  \<^verbatim>\<open>logs\<close> gets an error modal as well. An empty text is dropped without any
  modal.
\<close>

theorem import_failure_leaves_state:
  "fst (handleFileChange JSON_parse file st) = st
   \<and> (\<forall>content. file = Some content \<and> content \<noteq> [] \<and> JSON_parse content = None
        \<longrightarrow> snd (handleFileChange JSON_parse file st) = Some (CaughtErrorModal SyntaxError))
   \<and> (\<forall>content data. file = Some content \<and> content \<noteq> [] \<and> JSON_parse content = Some data
          \<and> \<not> (truthy (js_get data ''user'') \<and> truthy (js_get data ''logs''))
        \<longrightarrow> (\<exists>m. snd (handleFileChange JSON_parse file st) = Some m \<and> is_error_modal m))
   \<and> (file = Some [] \<longrightarrow> snd (handleFileChange JSON_parse file st) = None)"
proof (intro conjI allI impI)
  show "fst (handleFileChange JSON_parse file st) = st"
    by (rule handleFileChange_state)
next
  fix content
  assume "file = Some content \<and> content \<noteq> [] \<and> JSON_parse content = None"
  then show "snd (handleFileChange JSON_parse file st) = Some (CaughtErrorModal SyntaxError)"
    by (simp add: handleFileChange_def reader_onload_def)
next
  fix content data
  assume a: "file = Some content \<and> content \<noteq> [] \<and> JSON_parse content = Some data
          \<and> \<not> (truthy (js_get data ''user'') \<and> truthy (js_get data ''logs''))"
  show "\<exists>m. snd (handleFileChange JSON_parse file st) = Some m \<and> is_error_modal m"
  proof (cases "data = JNull \<or> data = JUndefined")
    case True
    with a show ?thesis by (auto simp: handleFileChange_def reader_onload_def)
  next
    case False
    with a have "snd (handleFileChange JSON_parse file st) = Some FormatErrorModal"
      by (auto simp: handleFileChange_def reader_onload_def)
    then show ?thesis by simp
  qed
next
  assume "file = Some []"
  then show "snd (handleFileChange JSON_parse file st) = None"
    by (simp add: handleFileChange_def reader_onload_def)
qed


theorem import_failure_leaves_state_witness:
  \<open>handleFileChange
      (parses_as ''{"user":{}}'' (JObj [(''user'', JObj [])]))
      (Some ''{"user":'')
      \<lparr> cur_user = INITIAL_USER ''2024-01-01T00:00:00.000Z'', cur_logs = JObj [] \<rparr>
    = (\<lparr> cur_user = INITIAL_USER ''2024-01-01T00:00:00.000Z'', cur_logs = JObj [] \<rparr>,
       Some (CaughtErrorModal SyntaxError))
   \<and> fst (handleFileChange
      (parses_as ''{"user":{}}'' (JObj [(''user'', JObj [])]))
      (Some ''{"user":{}}'')
      \<lparr> cur_user = INITIAL_USER ''2024-01-01T00:00:00.000Z'', cur_logs = JObj [] \<rparr>)
    = \<lparr> cur_user = INITIAL_USER ''2024-01-01T00:00:00.000Z'', cur_logs = JObj [] \<rparr>
   \<and> (\<exists>m. snd (handleFileChange
      (parses_as ''{"user":{}}'' (JObj [(''user'', JObj [])]))
      (Some ''{"user":{}}'')
      \<lparr> cur_user = INITIAL_USER ''2024-01-01T00:00:00.000Z'', cur_logs = JObj [] \<rparr>) = Some m
        \<and> is_error_modal m)\<close>
proof -
  let ?text = \<open>''{"user":{}}''\<close> and ?cut = \<open>''{"user":''\<close>
  let ?doc = "JObj [(''user'', JObj [])]"
  let ?st = "\<lparr> cur_user = INITIAL_USER ''2024-01-01T00:00:00.000Z'', cur_logs = JObj [] \<rparr>"
  let ?P = "parses_as ?text ?doc"
  have a: "Some ?cut = Some ?cut \<and> ?cut \<noteq> [] \<and> ?P ?cut = None"
    by (simp add: parses_as_def)
  from import_failure_leaves_state [of ?P "Some ?cut" ?st] a
  have "fst (handleFileChange ?P (Some ?cut) ?st) = ?st
      \<and> snd (handleFileChange ?P (Some ?cut) ?st) = Some (CaughtErrorModal SyntaxError)"
    by blast
  then have r1: "handleFileChange ?P (Some ?cut) ?st = (?st, Some (CaughtErrorModal SyntaxError))"
    by (simp add: prod_eq_iff)
  have b: "Some ?text = Some ?text \<and> ?text \<noteq> [] \<and> ?P ?text = Some ?doc
      \<and> \<not> (truthy (js_get ?doc ''user'') \<and> truthy (js_get ?doc ''logs''))"
    by (simp add: parses_as_def)
  from import_failure_leaves_state [of ?P "Some ?text" ?st] b
  have r2: "fst (handleFileChange ?P (Some ?text) ?st) = ?st
      \<and> (\<exists>m. snd (handleFileChange ?P (Some ?text) ?st) = Some m \<and> is_error_modal m)"
    by blast
  from r1 r2 show ?thesis by blast
qed

text \<open>
  Claim C6 as stated promises an error notification for every text that is not valid
  JSON. The empty text is not valid JSON, and the handler returns on it before it parses:
  no modal is shown.
\<close>

theorem import_empty_file_counterexample:
  \<open>parses_as ''{"user":{},"logs":{}}'' (JObj [(''user'', JObj []), (''logs'', JObj [])]) [] = None
   \<and> handleFileChange (parses_as ''{"user":{},"logs":{}}'' (JObj [(''user'', JObj []), (''logs'', JObj [])]))
        (Some []) \<lparr> cur_user = INITIAL_USER ''2024-01-01T00:00:00.000Z'', cur_logs = JObj [] \<rparr>
      = (\<lparr> cur_user = INITIAL_USER ''2024-01-01T00:00:00.000Z'', cur_logs = JObj [] \<rparr>, None)\<close>
  by (simp add: parses_as_def handleFileChange_def reader_onload_def)


subsection \<open>Export followed by import\<close>

lemma isFinite_Fin: "isFinite x \<Longrightarrow> \<exists>a. x = Fin a"
  by (cases x) simp_all

lemma reparse_FoodItem:
  "isFinite (calories f) \<Longrightarrow> JSON_reparse (FoodItem_object f) = FoodItem_object f"
  by (auto simp: FoodItem_object_def dest!: isFinite_Fin)

lemma reparse_DailyLog:
  assumes "finite_log l"
  shows "JSON_reparse (DailyLog_object l) = DailyLog_object l"
proof -
  from assms obtain t where t: "totalCalories l = Fin t"
    by (auto simp: finite_log_def dest: isFinite_Fin)
  from assms have f: "map JSON_reparse (map FoodItem_object (foods l)) = map FoodItem_object (foods l)"
    by (auto simp: finite_log_def list_all_iff reparse_FoodItem)
  from assms have w: "weightRecorded l = None \<or> (\<exists>a. weightRecorded l = Some (Fin a))"
    by (cases "weightRecorded l") (auto simp: finite_log_def dest: isFinite_Fin)
  from assms have i: "waterIntake l = None \<or> (\<exists>a. waterIntake l = Some (Fin a))"
    by (cases "waterIntake l") (auto simp: finite_log_def dest: isFinite_Fin)
  from t f w i show ?thesis
    by (auto simp: DailyLog_object_def optional_num_def)
qed

lemma reparse_Logs:
  "finite_logs L \<Longrightarrow> JSON_reparse (Logs_object L) = Logs_object L"
proof -
  assume a: "finite_logs L"
  have "filter (\<lambda>(k, v). v \<noteq> JUndefined) (map (\<lambda>(d, l). (d, DailyLog_object l)) L)
        = map (\<lambda>(d, l). (d, DailyLog_object l)) L"
    by (induction L) (auto simp: DailyLog_object_def)
  moreover have "map (\<lambda>(k, v). (k, JSON_reparse v)) (map (\<lambda>(d, l). (d, DailyLog_object l)) L)
        = map (\<lambda>(d, l). (d, DailyLog_object l)) L"
    using a by (induction L) (auto simp: finite_logs_def reparse_DailyLog)
  ultimately show ?thesis
    by (simp add: Logs_object_def)
qed

lemma reparse_optional_val:
  "json_data v \<Longrightarrow>
   map (\<lambda>(k, v). (k, JSON_reparse v)) (filter (\<lambda>(k, v). v \<noteq> JUndefined) (optional_val k v))
     = optional_val k v"
  by (auto simp: optional_val_def json_data_def)

lemma reparse_UserProfile:
  assumes "valid_profile u"
  shows "JSON_reparse (UserProfile_object u) = UserProfile_object u"
proof -
  from assms obtain s where n: "name u = JStr s"
    by (auto simp: valid_profile_def split: jsval.splits)
  from assms obtain a h w t l where f: "age u = Fin a" "height u = Fin h" "currentWeight u = Fin w"
      "targetWeight u = Fin t" "activityLevel u = Fin l"
    unfolding valid_profile_def by (meson isFinite_Fin)
  from assms have m: "manualTDEE u = None \<or> (\<exists>a. manualTDEE u = Some (Fin a))"
    by (cases "manualTDEE u") (auto simp: valid_profile_def dest: isFinite_Fin)
  from assms have j: "json_data (streak u)" "json_data (lastLogTimestamp u)" "json_data (waterGoal u)"
    by (simp_all add: valid_profile_def)
  show ?thesis
    using n f m reparse_optional_val [OF j(1)] reparse_optional_val [OF j(2)]
      reparse_optional_val [OF j(3)]
    by (auto simp: UserProfile_object_def optional_num_def)
qed

lemma reparse_export:
  assumes "valid_profile (cur_user st)" and "cur_logs st = Logs_object L" and "finite_logs L"
  shows "JSON_reparse (handleExportData t1 st) = handleExportData t1 st"
proof -
  have u: "UserProfile_object (cur_user st) \<noteq> JUndefined"
    by (simp add: UserProfile_object_def)
  have l: "Logs_object L \<noteq> JUndefined"
    by (simp add: Logs_object_def)
  show ?thesis
    using assms u l
    by (simp add: handleExportData_def reparse_UserProfile reparse_Logs)
qed


lemma js_get_export:
  "js_get (handleExportData t1 st) ''user'' = UserProfile_object (cur_user st)"
  "js_get (handleExportData t1 st) ''logs'' = cur_logs st"
  by (simp_all add: handleExportData_def)

lemma js_get_profile_num:
  "js_get (UserProfile_object u) ''currentWeight'' = JNum (currentWeight u)"
  "js_get (UserProfile_object u) ''targetWeight'' = JNum (targetWeight u)"
  "js_get (UserProfile_object u) ''height'' = JNum (height u)"
  "js_get (UserProfile_object u) ''age'' = JNum (age u)"
  "js_get (UserProfile_object u) ''activityLevel'' = JNum (activityLevel u)"
  by (simp_all add: UserProfile_object_def)

lemma js_get_profile_str:
  "js_get (UserProfile_object u) ''name'' = name u"
  "js_get (UserProfile_object u) ''gender'' = JStr (Gender_value (gender u))"
  "js_get (UserProfile_object u) ''goalType'' = JStr (GoalType_value (goalType u))"
  by (simp_all add: UserProfile_object_def)

lemma js_get_profile_manual:
  "js_get (UserProfile_object u) ''manualTDEE''
     = (case manualTDEE u of None \<Rightarrow> JUndefined | Some m \<Rightarrow> JNum m)"
  by (simp add: UserProfile_object_def optional_num_def optional_val_def split: option.splits)

lemma spread_field_profile:
  "spread_field (UserProfile_object u) ''streak'' JUndefined = streak u"
  "spread_field (UserProfile_object u) ''lastLogTimestamp'' JUndefined = lastLogTimestamp u"
  "spread_field (UserProfile_object u) ''waterGoal'' JUndefined = waterGoal u"
  by (simp_all add: spread_field_def UserProfile_object_def optional_num_def optional_val_def
      split: option.splits)

lemma safeNum_finite: "isFinite x \<Longrightarrow> safeNum (JNum x) d = Some x"
  by (cases x) (simp_all add: safeNum_def Number_def)

lemma gender_roundtrip:
  "(if toLowerCase_text (Text (Gender_value g)) = Text ''female'' then FEMALE else MALE) = g"
  by (cases g) (simp_all add: Gender_value_def toLowerCase_def code_unit_def)

lemma goal_roundtrip: "normalize_goal (Text (GoalType_value g)) = g"
  by (cases g) (simp_all add: GoalType_value_def validGoals_def)

lemma manual_roundtrip:
  assumes "case m of None \<Rightarrow> True | Some x \<Rightarrow> isFinite x \<and> js_gt x (Fin 0)"
  shows "Number (case m of None \<Rightarrow> JUndefined | Some x \<Rightarrow> JNum x) = Some (case m of None \<Rightarrow> NaN | Some x \<Rightarrow> x)
     \<and> (if js_gt (case m of None \<Rightarrow> NaN | Some x \<Rightarrow> x) (Fin 0) then Some (case m of None \<Rightarrow> NaN | Some x \<Rightarrow> x) else None) = m"
  using assms by (cases m) (simp_all add: Number_def)

lemma onConfirm_export:
  assumes v: "valid_profile (cur_user st)"
  shows "onConfirm loaded t2 (handleExportData t1 st) st2
       = Some \<lparr> cur_user = (cur_user st) \<lparr> updatedAt := t2 \<rparr>, cur_logs = cur_logs st \<rparr>"
proof -
  let ?u = "cur_user st"
  from v obtain s where n: "name ?u = JStr s" "s \<noteq> []"
    by (auto simp: valid_profile_def split: jsval.splits)
  from v have f: "isFinite (age ?u)" "isFinite (height ?u)" "isFinite (currentWeight ?u)"
      "isFinite (targetWeight ?u)" "isFinite (activityLevel ?u)"
    by (simp_all add: valid_profile_def)
  from v have m: "case manualTDEE ?u of None \<Rightarrow> True | Some x \<Rightarrow> isFinite x \<and> js_gt x (Fin 0)"
    by (simp add: valid_profile_def)
  note mr = manual_roundtrip [OF m]
  have "onConfirm loaded t2 (handleExportData t1 st) st2
       = Some \<lparr> cur_user =
                 \<lparr> name = name ?u, gender = gender ?u, age = age ?u, height = height ?u,
                   currentWeight = currentWeight ?u, targetWeight = targetWeight ?u,
                   activityLevel = activityLevel ?u, goalType = goalType ?u,
                   manualTDEE = manualTDEE ?u, updatedAt = t2, streak = streak ?u,
                   lastLogTimestamp = lastLogTimestamp ?u, waterGoal = waterGoal ?u \<rparr>,
               cur_logs = cur_logs st \<rparr>"
    using n f mr
    by (simp add: onConfirm_def Let_def js_get_export js_get_profile_num js_get_profile_str
        js_get_profile_manual spread_field_profile safeNum_finite String_of_def
        gender_roundtrip goal_roundtrip INITIAL_USER_def
        del: normalize_goal.simps toLowerCase_text.simps)
  then show ?thesis
    by simp
qed

lemma confirmMsg_export:
  assumes "valid_profile (cur_user st)"
  shows "\<exists>n w. confirmMsg (handleExportData t1 st) = Some (n, w)"
proof -
  from assms obtain s where n: "name (cur_user st) = JStr s"
    by (auto simp: valid_profile_def split: jsval.splits)
  show ?thesis
    by (simp add: confirmMsg_def Let_def js_get_export js_get_profile_num js_get_profile_str n
        String_of_def)
qed


text \<open>
  Claim C8, as amended. For a state whose profile is valid (finite numeric fields
  included) and whose logs are a typed mapping with finite numbers only, the file that
  the export writes reads back as the exported document, the import asks for
  confirmation, and the confirmation installs the same profile with a fresh
  \<^verbatim>\<open>updatedAt\<close> and the same logs.
\<close>

theorem export_import_roundtrip:
  assumes "valid_profile (cur_user st)" and "cur_logs st = Logs_object L" and "finite_logs L"
    and "content \<noteq> []"
    and "JSON_parse content = Some (JSON_reparse (handleExportData t1 st))"
  shows "JSON_reparse (handleExportData t1 st) = handleExportData t1 st
     \<and> (\<exists>n w. handleFileChange JSON_parse (Some content) st
                = (st, Some (ConfirmModal n w (handleExportData t1 st))))
     \<and> onConfirm loaded t2 (handleExportData t1 st) st
         = Some \<lparr> cur_user = (cur_user st) \<lparr> updatedAt := t2 \<rparr>, cur_logs = cur_logs st \<rparr>"
proof -
  have r: "JSON_reparse (handleExportData t1 st) = handleExportData t1 st"
    using assms(1-3) by (rule reparse_export)
  from confirmMsg_export [OF assms(1)] obtain n w
    where m: "confirmMsg (handleExportData t1 st) = Some (n, w)"
    by blast
  have t: "truthy (js_get (handleExportData t1 st) ''user'')
      \<and> truthy (js_get (handleExportData t1 st) ''logs'')"
    using assms(2) by (simp add: js_get_export UserProfile_object_def Logs_object_def)
  have d: "handleExportData t1 st \<noteq> JNull \<and> handleExportData t1 st \<noteq> JUndefined"
    by (simp add: handleExportData_def)
  have "handleFileChange JSON_parse (Some content) st
      = (st, Some (ConfirmModal n w (handleExportData t1 st)))"
    using assms(4,5) r m t d
    by (simp add: handleFileChange_def reader_onload_def)
  then have h: "\<exists>n w. handleFileChange JSON_parse (Some content) st
      = (st, Some (ConfirmModal n w (handleExportData t1 st)))"
    by blast
  from r h onConfirm_export [OF assms(1)] show ?thesis
    by blast
qed

theorem export_import_roundtrip_witness:
  "valid_profile (INITIAL_USER ''2024-01-01T00:00:00.000Z'')
   \<and> finite_logs
        (handleAddFood ''2024-05-01'' ''Rice'' ''300'' ''1714550000000'' ''2024-05-01T08:00:00.000Z'' [])
   \<and> onConfirm ''2024-01-01T00:00:00.000Z'' ''2024-06-01T00:00:00.000Z''
        (handleExportData ''2024-05-01T09:00:00.000Z''
          \<lparr> cur_user = INITIAL_USER ''2024-01-01T00:00:00.000Z'',
            cur_logs =
              Logs_object
                (handleAddFood ''2024-05-01'' ''Rice'' ''300'' ''1714550000000''
                  ''2024-05-01T08:00:00.000Z'' []) \<rparr>)
        \<lparr> cur_user = INITIAL_USER ''2024-01-01T00:00:00.000Z'',
          cur_logs =
            Logs_object
              (handleAddFood ''2024-05-01'' ''Rice'' ''300'' ''1714550000000''
                ''2024-05-01T08:00:00.000Z'' []) \<rparr>
      = Some \<lparr> cur_user =
                 (INITIAL_USER ''2024-01-01T00:00:00.000Z'')
                   \<lparr> updatedAt := ''2024-06-01T00:00:00.000Z'' \<rparr>,
               cur_logs =
                 Logs_object
                   (handleAddFood ''2024-05-01'' ''Rice'' ''300'' ''1714550000000''
                     ''2024-05-01T08:00:00.000Z'' []) \<rparr>"
proof -
  let ?L = "handleAddFood ''2024-05-01'' ''Rice'' ''300'' ''1714550000000'' ''2024-05-01T08:00:00.000Z'' []"
  let ?st = "\<lparr> cur_user = INITIAL_USER ''2024-01-01T00:00:00.000Z'', cur_logs = Logs_object ?L \<rparr>"
  let ?file = "''calorieflow_backup_2024-05-01.wgd''"
  let ?P = "parses_as ?file (JSON_reparse (handleExportData ''2024-05-01T09:00:00.000Z'' ?st))"
  have h1: "valid_profile (cur_user ?st)"
    by code_simp
  have h2: "cur_logs ?st = Logs_object ?L"
    by simp
  have h3: "finite_logs ?L"
    by code_simp
  have h4: "?file \<noteq> []"
    by simp
  have h5: "?P ?file = Some (JSON_reparse (handleExportData ''2024-05-01T09:00:00.000Z'' ?st))"
    by (rule parses_as_self)
  note t = export_import_roundtrip
    [where st = ?st and L = ?L and content = ?file and JSON_parse = ?P
       and ?t1.0 = "''2024-05-01T09:00:00.000Z''" and loaded = "''2024-01-01T00:00:00.000Z''"
       and ?t2.0 = "''2024-06-01T00:00:00.000Z''",
     OF h1 h2 h3 h4 h5]
  from h1 h3 t show ?thesis
    by simp
qed

text \<open>
  Claim C8 as stated admits any logs mapping. Entering \<^verbatim>\<open>.5\<close> for the calories of
  a food makes \<^verbatim>\<open>parseInt\<close> return \<^verbatim>\<open>NaN\<close>, which the log then holds in
  \<^verbatim>\<open>calories\<close> and \<^verbatim>\<open>totalCalories\<close>; the exported file has \<^verbatim>\<open>null\<close> in
  both places, and so have the logs after the import.
\<close>

theorem export_import_roundtrip_counterexample:
  "valid_profile (INITIAL_USER ''2024-01-01T00:00:00.000Z'')
   \<and> Logs_object
        (handleAddFood ''2024-05-01'' ''Milk'' ''.5'' ''1714550000000'' ''2024-05-01T08:00:00.000Z'' [])
      = JObj [(''2024-05-01'',
               JObj [(''date'', JStr ''2024-05-01''),
                     (''foods'',
                      JArr [JObj [(''id'', JStr ''1714550000000''), (''name'', JStr ''Milk''),
                                  (''calories'', JNum NaN),
                                  (''timestamp'', JStr ''2024-05-01T08:00:00.000Z'')]]),
                     (''totalCalories'', JNum NaN)])]
   \<and> map_option cur_logs
        (onConfirm ''2024-01-01T00:00:00.000Z'' ''2024-06-01T00:00:00.000Z''
          (JSON_reparse
            (handleExportData ''2024-05-01T09:00:00.000Z''
              \<lparr> cur_user = INITIAL_USER ''2024-01-01T00:00:00.000Z'',
                cur_logs =
                  Logs_object
                    (handleAddFood ''2024-05-01'' ''Milk'' ''.5'' ''1714550000000''
                      ''2024-05-01T08:00:00.000Z'' []) \<rparr>))
          \<lparr> cur_user = INITIAL_USER ''2024-01-01T00:00:00.000Z'',
            cur_logs =
              Logs_object
                (handleAddFood ''2024-05-01'' ''Milk'' ''.5'' ''1714550000000''
                  ''2024-05-01T08:00:00.000Z'' []) \<rparr>)
      = Some (JObj [(''2024-05-01'',
               JObj [(''date'', JStr ''2024-05-01''),
                     (''foods'',
                      JArr [JObj [(''id'', JStr ''1714550000000''), (''name'', JStr ''Milk''),
                                  (''calories'', JNull),
                                  (''timestamp'', JStr ''2024-05-01T08:00:00.000Z'')]]),
                     (''totalCalories'', JNull)])])"
  by code_simp

end
